theory Spec2Isabelle
  imports Complex_Main
begin

section \<open>The loan eligibility model: data\<close>

text \<open>
  The embedding follows the class \<open>LoanEligibilityModel\<close> (the second document of
  \<^verbatim>\<open>src/src/service/bankOffersService.ts\<close>, lines 98 to 474).

  A JavaScript \<open>number\<close> is modelled by a real number and the arithmetic is exact.
  Where a property depends on what a double does, the model is refined:
  \<^item> the standard deviation and the denominators of precision, recall and f1 are
    guarded in the source, and the guards are part of the model;
  \<^item> the percentage shares of \<open>predict\<close> and the accuracy of \<open>calculateMetrics\<close>
    return the type \<open>number\<close>, whose value \<open>NaN\<close> is what the source computes at
    \<open>0 / 0\<close>;
  \<^item> the statistics of the scaler pass every arithmetic result through a rounding
    function (section Training), and \<open>binary64\<close> is the rounding of doubles;
  \<^item> the decision of \<open>predict\<close> is embedded a second time over the special values of
    doubles (\<open>predict_ieee\<close>: overflow to an infinity, division by zero, \<open>NaN\<close>), and
    the properties of the model without weights are stated on that embedding;
  \<^item> the three divisions of \<open>engineerFeatures\<close> give an infinity or \<open>NaN\<close> in the
    source when the divisor is zero; the properties of the predictions of a trained
    model are stated on the real numbers for applicants with non-zero divisors
    (\<open>divisors_nonzero\<close>), which every row of the \<open>applicants\<close> table is.
\<close>

datatype number = Num real | NaN

text \<open>\<open>interface Applicant\<close> and \<open>Omit\<close> of \<open>approved\<close>: the seven raw fields.\<close>

record Applicant =
  income :: real
  credit_history :: real
  loan_amount :: real
  loan_term :: real
  employment_type :: string
  dependents :: real
  marital_status :: string

text \<open>\<open>interface TrainingData\<close>: the raw fields and the label.\<close>

record TrainingData = Applicant +
  approved :: real

record ModelMetrics =
  accuracy :: number
  precision :: real
  recall :: real
  f1_score :: real
  training_samples :: int
  validation_samples :: int

datatype status = Approved | Rejected

record PredictionResult =
  eligibility_status :: status
  credit_score :: int
  prediction_confidence :: int
  probability_approved :: real
  feature_attributions :: "(string \<times> number) list"
  explanation :: string

text \<open>The field \<open>scaler: { mean: Map; std: Map }\<close>.\<close>

record Scaler =
  mean :: "string \<rightharpoonup> real"
  std :: "string \<rightharpoonup> real"

record LoanEligibilityModel =
  weights :: "string \<rightharpoonup> real"
  encoders :: "string \<rightharpoonup> (string \<rightharpoonup> real)"
  scaler :: Scaler
  metrics :: ModelMetrics
  version :: string

text \<open>
  A record of numbers by name whose keys are iterated (\<open>Object.keys\<close>,
  \<open>Object.entries\<close>) is an association list in insertion order.
\<close>

type_synonym features = "(string \<times> real) list"

section \<open>JavaScript operators\<close>

text \<open>\<open>v || d\<close> on an optional number: \<open>undefined\<close> and \<open>0\<close> are falsy.\<close>

definition js_or :: "real option \<Rightarrow> real \<Rightarrow> real" where
  "js_or v d = (case v of None \<Rightarrow> d | Some x \<Rightarrow> if x = 0 then d else x)"

text \<open>\<open>Math.round\<close> rounds to the nearest integer, a half towards plus infinity.\<close>

definition js_round :: "real \<Rightarrow> int" where
  "js_round x = \<lfloor>x + 1 / 2\<rfloor>"

text \<open>
  \<open>f[name]\<close> on a feature vector. Every vector the code reads comes from
  \<open>engineerFeatures\<close> or \<open>normalize\<close> and is read at one of its own keys
  (\<open>feature_at_defined\<close>, \<open>feature_at_map\<close>); a missing key, in the source
  \<open>undefined\<close>, does not occur.
\<close>

definition feature_at :: "features \<Rightarrow> string \<Rightarrow> real" where
  "feature_at f name = (case map_of f name of Some v \<Rightarrow> v | None \<Rightarrow> 0)"

text \<open>
  \<open>Array.prototype.sort\<close> with a comparator is a stable sort: \<open>x\<close> stays before
  \<open>y\<close> when the comparator's value on \<open>(x, y)\<close> is not positive.
\<close>

fun insert_by :: "('a \<Rightarrow> 'a \<Rightarrow> real) \<Rightarrow> 'a \<Rightarrow> 'a list \<Rightarrow> 'a list" where
  "insert_by cmp x [] = [x]"
| "insert_by cmp x (y # ys) =
     (if cmp x y \<le> 0 then x # y # ys else y # insert_by cmp x ys)"

definition js_sort :: "('a \<Rightarrow> 'a \<Rightarrow> real) \<Rightarrow> 'a list \<Rightarrow> 'a list" where
  "js_sort cmp xs = foldr (insert_by cmp) xs []"

text \<open>\<open>reasons.join(', ')\<close>.\<close>

fun join :: "string \<Rightarrow> string list \<Rightarrow> string" where
  "join sep [] = []"
| "join sep [x] = x"
| "join sep (x # y # ys) = x @ sep @ join sep (y # ys)"

section \<open>Doubles\<close>

text \<open>
  The values of a double: a finite number, the two infinities and \<open>NaN\<close>. The
  operations below follow IEEE 754 on the special values and on overflow; the result of
  an operation on finite values is the exact one when it does not overflow (its rounding
  is not modelled here), and the two zeros are one.
\<close>

datatype ieee = Finite real | PlusInfinity | MinusInfinity | NotANumber

text \<open>
  The exact results that round to a finite double are those below
  \<open>2^1024 - 2^970\<close> in absolute value; any other rounds to an infinity.
\<close>

definition overflow_threshold :: real where
  "overflow_threshold = 2 ^ 1024 - 2 ^ 970"

definition to_ieee :: "real \<Rightarrow> ieee" where
  "to_ieee x =
     (if \<bar>x\<bar> < overflow_threshold then Finite x
      else if x > 0 then PlusInfinity else MinusInfinity)"

text \<open>\<open>Number.isFinite\<close>.\<close>

fun is_finite :: "ieee \<Rightarrow> bool" where
  "is_finite (Finite x) = (\<bar>x\<bar> < overflow_threshold)"
| "is_finite v = False"

text \<open>The sign of a value and the infinity of a sign.\<close>

fun ieee_sign :: "ieee \<Rightarrow> real" where
  "ieee_sign (Finite x) = sgn x"
| "ieee_sign PlusInfinity = 1"
| "ieee_sign MinusInfinity = - 1"
| "ieee_sign NotANumber = 0"

definition signed_infinity :: "real \<Rightarrow> ieee" where
  "signed_infinity s = (if s > 0 then PlusInfinity else MinusInfinity)"

text \<open>Negation, addition and subtraction; \<open>Infinity - Infinity\<close> is \<open>NaN\<close>.\<close>

fun ieee_neg :: "ieee \<Rightarrow> ieee" where
  "ieee_neg (Finite x) = Finite (- x)"
| "ieee_neg PlusInfinity = MinusInfinity"
| "ieee_neg MinusInfinity = PlusInfinity"
| "ieee_neg NotANumber = NotANumber"

fun ieee_add :: "ieee \<Rightarrow> ieee \<Rightarrow> ieee" where
  "ieee_add (Finite a) (Finite b) = to_ieee (a + b)"
| "ieee_add NotANumber b = NotANumber"
| "ieee_add a NotANumber = NotANumber"
| "ieee_add PlusInfinity MinusInfinity = NotANumber"
| "ieee_add MinusInfinity PlusInfinity = NotANumber"
| "ieee_add PlusInfinity b = PlusInfinity"
| "ieee_add a PlusInfinity = PlusInfinity"
| "ieee_add MinusInfinity b = MinusInfinity"
| "ieee_add a MinusInfinity = MinusInfinity"

definition ieee_sub :: "ieee \<Rightarrow> ieee \<Rightarrow> ieee" where
  "ieee_sub a b = ieee_add a (ieee_neg b)"

text \<open>Multiplication; \<open>Infinity * 0\<close> is \<open>NaN\<close>.\<close>

fun ieee_mul :: "ieee \<Rightarrow> ieee \<Rightarrow> ieee" where
  "ieee_mul (Finite a) (Finite b) = to_ieee (a * b)"
| "ieee_mul NotANumber b = NotANumber"
| "ieee_mul a NotANumber = NotANumber"
| "ieee_mul a b =
     (if ieee_sign a * ieee_sign b = 0 then NotANumber
      else signed_infinity (ieee_sign a * ieee_sign b))"

text \<open>
  Division; \<open>x / 0\<close> is an infinity when \<open>x\<close> is not zero, and \<open>0 / 0\<close>
  and \<open>Infinity / Infinity\<close> are \<open>NaN\<close>.
\<close>

fun ieee_div :: "ieee \<Rightarrow> ieee \<Rightarrow> ieee" where
  "ieee_div (Finite a) (Finite b) =
     (if b = 0 then (if a = 0 then NotANumber else signed_infinity (sgn a))
      else to_ieee (a / b))"
| "ieee_div NotANumber b = NotANumber"
| "ieee_div a NotANumber = NotANumber"
| "ieee_div (Finite a) b = Finite 0"
| "ieee_div a (Finite b) = signed_infinity (ieee_sign a * (if b < 0 then - 1 else 1))"
| "ieee_div a b = NotANumber"




text \<open>\<open>2^e\<close> for an integer exponent.\<close>

definition pow2 :: "int \<Rightarrow> real" where
  "pow2 e = (if e \<ge> 0 then 2 ^ nat e else 1 / 2 ^ nat (- e))"

text \<open>The nearest integer, a tie going to the even one.\<close>

definition round_ties_even :: "real \<Rightarrow> int" where
  "round_ties_even x =
     (let n = \<lfloor>x\<rfloor>; r = x - of_int n
      in if r < 1 / 2 then n else if r > 1 / 2 then n + 1 else if even n then n else n + 1)"

text \<open>
  The rounding of an exact result to a double: 53 significant bits above
  \<open>2^-1022\<close> and multiples of \<open>2^-1074\<close> below, to nearest, ties to even.
  Overflow is the matter of \<open>to_ieee\<close>.
\<close>

definition binary64 :: "real \<Rightarrow> real" where
  "binary64 x =
     (if x = 0 then 0
      else let e = max (\<lfloor>log 2 \<bar>x\<bar>\<rfloor> - 52) (- 1074)
           in of_int (round_ties_even (x / pow2 e)) * pow2 e)"

section \<open>Construction and feature engineering\<close>

text \<open>\<open>initializeEncoders\<close> (lines 149 to 162).\<close>

definition initializeEncoders :: "LoanEligibilityModel \<Rightarrow> LoanEligibilityModel" where
  "initializeEncoders m =
     m\<lparr>encoders := (encoders m)
        (''employment_type'' \<mapsto>
           [''salaried'' \<mapsto> 0.8, ''self_employed'' \<mapsto> 0.5, ''business'' \<mapsto> 0.6],
         ''marital_status'' \<mapsto>
           [''married'' \<mapsto> 0.7, ''single'' \<mapsto> 0.5, ''divorced'' \<mapsto> 0.4,
            ''widowed'' \<mapsto> 0.45])\<rparr>"

text \<open>The constructor (lines 134 to 147): empty maps, zero metrics, the encoders.\<close>

definition LoanEligibilityModel_new :: LoanEligibilityModel where
  "LoanEligibilityModel_new =
     initializeEncoders
       \<lparr>weights = Map.empty, encoders = Map.empty,
        scaler = \<lparr>mean = Map.empty, std = Map.empty\<rparr>,
        metrics = \<lparr>accuracy = Num 0, precision = 0, recall = 0, f1_score = 0,
                   training_samples = 0, validation_samples = 0\<rparr>,
        version = ''v1.0-ensemble''\<rparr>"

text \<open>\<open>this.encoders.get(field)?.get(key) || 0.5\<close> (lines 173, 174 and 200).\<close>

definition encode :: "LoanEligibilityModel \<Rightarrow> string \<Rightarrow> string \<Rightarrow> real" where
  "encode m field key =
     js_or (case encoders m field of None \<Rightarrow> None | Some table \<Rightarrow> table key) 0.5"

text \<open>\<open>engineerFeatures\<close> (lines 164 to 183); the keys in the order of their assignment.\<close>

definition engineerFeatures :: "LoanEligibilityModel \<Rightarrow> 'a Applicant_scheme \<Rightarrow> features" where
  "engineerFeatures m data =
     [(''income'', income data),
      (''credit_history'', credit_history data),
      (''loan_amount'', loan_amount data),
      (''loan_term'', loan_term data),
      (''dependents'', dependents data),
      (''employment_encoded'', encode m ''employment_type'' (employment_type data)),
      (''marital_encoded'', encode m ''marital_status'' (marital_status data)),
      (''loan_to_income_ratio'', loan_amount data / (income data + 1)),
      (''monthly_burden'', (loan_amount data * 0.01) / loan_term data),
      (''income_per_dependent'', income data / (dependents data + 1)),
      (''credit_x_income'', credit_history data * income data),
      (''risk_score'',
         (loan_amount data / (income data + 1)) * (1 - credit_history data)
           * (dependents data + 1))]"

section \<open>Prediction\<close>

text \<open>
  Lines 355 to 360 of \<open>predict\<close> (the same loop stands at lines 241 to 249 and 330 to
  335): each key's value, centred and scaled by the stored parameters or their defaults.
\<close>

definition normalize :: "LoanEligibilityModel \<Rightarrow> features \<Rightarrow> string list \<Rightarrow> features" where
  "normalize m f featureNames =
     map (\<lambda>name.
            (name, (feature_at f name - js_or (mean (scaler m) name) 0)
                     / js_or (std (scaler m) name) 1))
         featureNames"

text \<open>Lines 362 to 365 (and 337 to 340, 266 to 269): the weighted sum.\<close>

definition weighted_sum :: "LoanEligibilityModel \<Rightarrow> features \<Rightarrow> string list \<Rightarrow> real" where
  "weighted_sum m normalized featureNames =
     foldl (\<lambda>logit name. logit + feature_at normalized name * js_or (weights m name) 0)
       0 featureNames"

definition sigmoid :: "real \<Rightarrow> real" where
  "sigmoid logit = 1 / (1 + exp (- logit))"

text \<open>Lines 369 to 375: the absolute contributions and their running total.\<close>

definition contributions :: "LoanEligibilityModel \<Rightarrow> features \<Rightarrow> string list \<Rightarrow> features" where
  "contributions m normalized featureNames =
     map (\<lambda>name. (name, \<bar>feature_at normalized name * js_or (weights m name) 0\<bar>))
       featureNames"

definition totalContribution :: "features \<Rightarrow> real" where
  "totalContribution contribs = foldl (\<lambda>acc (name, contrib). acc + contrib) 0 contribs"

text \<open>
  Line 378, \<open>(feature_attributions[name] / totalContribution) * 100\<close>. The total is a
  sum of absolute values: when it is zero so is every contribution, and the source
  computes \<open>0 / 0 = NaN\<close>.
\<close>

definition percentage :: "real \<Rightarrow> real \<Rightarrow> number" where
  "percentage contrib tc = (if tc = 0 then NaN else Num (contrib / tc * 100))"

text \<open>
  The comparator of line 382, \<open>(a, b) => b[1] - a[1]\<close>; a \<open>NaN\<close> difference counts
  as zero in \<open>sort\<close>.
\<close>

fun descending :: "string \<times> number \<Rightarrow> string \<times> number \<Rightarrow> real" where
  "descending (ka, Num a) (kb, Num b) = b - a"
| "descending a b = 0"

text \<open>Line 385, \<open>Math.round(val * 100) / 100\<close>.\<close>

fun round2 :: "number \<Rightarrow> number" where
  "round2 (Num val) = Num (of_int (js_round (val * 100)) / 100)"
| "round2 NaN = NaN"

text \<open>Lines 377 to 387: shares, sort, the first five, rounded.\<close>

definition sortedAttributions :: "features \<Rightarrow> (string \<times> number) list" where
  "sortedAttributions contribs =
     map (\<lambda>(key, val). (key, round2 val))
       (take 5 (js_sort descending
          (map (\<lambda>(name, contrib). (name, percentage contrib (totalContribution contribs)))
             contribs)))"

text \<open>\<open>generateExplanation\<close> (lines 413 to 450); \<open>topFeatures\<close> is not read.\<close>

definition generateExplanation ::
  "status \<Rightarrow> string list \<Rightarrow> features \<Rightarrow> 'a Applicant_scheme \<Rightarrow> string" where
  "generateExplanation st topFeatures f data =
     (let reasons =
        (if st = Approved then
           (if credit_history data \<ge> 0.7 then [''strong credit history''] else []) @
           (if feature_at f ''loan_to_income_ratio'' < 3
            then [''healthy loan-to-income ratio''] else []) @
           (if employment_type data = ''salaried'' then [''stable employment''] else []) @
           (if income data > 500000 then [''good income level''] else [])
         else
           (if credit_history data < 0.5 then [''weak credit history''] else []) @
           (if feature_at f ''loan_to_income_ratio'' > 5
            then [''high loan-to-income ratio''] else []) @
           (if feature_at f ''risk_score'' > 1000000 then [''elevated risk score''] else []) @
           (if dependents data > 3 then [''higher number of dependents''] else []))
      in ''Application '' @ (if st = Approved then ''approved'' else ''rejected'')
           @ '' based on '' @ join '', '' reasons @ ''.'')"

text \<open>\<open>predict\<close> (lines 351 to 411).\<close>

definition predict :: "LoanEligibilityModel \<Rightarrow> 'a Applicant_scheme \<Rightarrow> PredictionResult" where
  "predict m data =
     (let f = engineerFeatures m data;
          featureNames = map fst f;
          normalized = normalize m f featureNames;
          logit = weighted_sum m normalized featureNames;
          probability = sigmoid logit;
          attributions = sortedAttributions (contributions m normalized featureNames);
          st = (if probability \<ge> 0.5 then Approved else Rejected);
          baseCreditScore = 300;
          maxCreditScore = 850;
          scoreRange = maxCreditScore - baseCreditScore;
          score = js_round (baseCreditScore + probability * scoreRange);
          confidence =
            js_round ((if st = Approved then probability else 1 - probability) * 100);
          topFeatures = take 3 (map fst attributions)
      in \<lparr>eligibility_status = st,
          credit_score = score,
          prediction_confidence = confidence,
          probability_approved = probability,
          feature_attributions = attributions,
          explanation = generateExplanation st topFeatures f data\<rparr>)"

section \<open>Prediction over the special values\<close>

text \<open>
  The decision of \<open>predict\<close> once more, with the numbers of section Doubles: the raw
  fields, the encoder values, the weights and the scaling parameters are converted by
  \<open>to_ieee\<close>, and every operation of the source is the operation on doubles.
\<close>


text \<open>\<open>engineerFeatures\<close> (lines 164 to 183).\<close>

definition engineerFeatures_ieee ::
  "LoanEligibilityModel \<Rightarrow> 'a Applicant_scheme \<Rightarrow> (string \<times> ieee) list" where
  "engineerFeatures_ieee m data =
     (let income' = to_ieee (income data);
          credit_history' = to_ieee (credit_history data);
          loan_amount' = to_ieee (loan_amount data);
          loan_term' = to_ieee (loan_term data);
          dependents' = to_ieee (dependents data)
      in [(''income'', income'),
          (''credit_history'', credit_history'),
          (''loan_amount'', loan_amount'),
          (''loan_term'', loan_term'),
          (''dependents'', dependents'),
          (''employment_encoded'', to_ieee (encode m ''employment_type'' (employment_type data))),
          (''marital_encoded'', to_ieee (encode m ''marital_status'' (marital_status data))),
          (''loan_to_income_ratio'', ieee_div loan_amount' (ieee_add income' (Finite 1))),
          (''monthly_burden'', ieee_div (ieee_mul loan_amount' (Finite 0.01)) loan_term'),
          (''income_per_dependent'', ieee_div income' (ieee_add dependents' (Finite 1))),
          (''credit_x_income'', ieee_mul credit_history' income'),
          (''risk_score'',
             ieee_mul
               (ieee_mul (ieee_div loan_amount' (ieee_add income' (Finite 1)))
                  (ieee_sub (Finite 1) credit_history'))
               (ieee_add dependents' (Finite 1)))])"






section \<open>Synthetic data\<close>

text \<open>
  \<open>Math.random()\<close> is the ambient random source: a sequence of draws \<open>rnd\<close> and
  the index \<open>k\<close> of the next draw, threaded through the calls.

  \<open>xs[i]\<close> on an array of strings. \<open>Math.random()\<close> lies in \<open>[0, 1)\<close>, which keeps
  the two indices of \<open>generateSyntheticData\<close> in range; out of range the source reads
  \<open>undefined\<close>, which no encoder table has as a key.
\<close>

definition array_at :: "string list \<Rightarrow> int \<Rightarrow> string" where
  "array_at xs i = (if 0 \<le> i \<and> i < int (length xs) then xs ! nat i else ''undefined'')"

text \<open>One round of the loop of \<open>generateSyntheticData\<close> (lines 191 to 221): eight draws.\<close>

definition generateSample :: "LoanEligibilityModel \<Rightarrow> (nat \<Rightarrow> real) \<Rightarrow> nat \<Rightarrow> TrainingData" where
  "generateSample m rnd k =
     (let employmentTypes = [''salaried'', ''self_employed'', ''business''];
          maritalStatuses = [''single'', ''married'', ''divorced'', ''widowed''];
          income' = 200000 + rnd k * 1800000;
          credit_history' = rnd (k + 1);
          loan_amount' = 100000 + rnd (k + 2) * 4900000;
          loan_term' = 12 + of_int \<lfloor>rnd (k + 3) * 348\<rfloor>;
          employment_type' =
            array_at employmentTypes \<lfloor>rnd (k + 4) * of_nat (length employmentTypes)\<rfloor>;
          dependents' = of_int \<lfloor>rnd (k + 5) * 5\<rfloor>;
          marital_status' =
            array_at maritalStatuses \<lfloor>rnd (k + 6) * of_nat (length maritalStatuses)\<rfloor>;
          lti_ratio = loan_amount' / income';
          employment_score = encode m ''employment_type'' employment_type';
          risk = lti_ratio * (1 - credit_history') * (dependents' * 0.1 + 1);
          base_approval_prob =
            credit_history' * 0.4 + (income' / 2000000) * 0.25 + employment_score * 0.15
              + (1 - min (lti_ratio / 5) 1) * 0.2;
          approval_prob =
            max 0 (min 1 (base_approval_prob - risk * 0.3 + (rnd (k + 7) * 0.1 - 0.05)));
          approved' = (if approval_prob > 0.55 then 1 else 0)
      in \<lparr>income = income', credit_history = credit_history', loan_amount = loan_amount',
          loan_term = loan_term', employment_type = employment_type',
          dependents = dependents', marital_status = marital_status',
          approved = approved'\<rparr>)"

text \<open>\<open>generateSyntheticData\<close> (lines 185 to 225); it leaves the source at \<open>k + 8 * samples\<close>.\<close>

fun generateSyntheticData ::
  "LoanEligibilityModel \<Rightarrow> (nat \<Rightarrow> real) \<Rightarrow> nat \<Rightarrow> nat \<Rightarrow> TrainingData list" where
  "generateSyntheticData m rnd k 0 = []"
| "generateSyntheticData m rnd k (Suc samples) =
     generateSample m rnd k # generateSyntheticData m rnd (k + 8) samples"

section \<open>Training\<close>

datatype error = TypeError | ModelNotTrained

text \<open>
  Lines 232 to 235: the statistics of one feature's values. Line 235 tests the computed
  root for being exactly zero, and whether it is depends on how each arithmetic result
  is rounded to a double: the sum of 4000 copies of 0.4 is not 1600 in doubles, and the
  deviation computed for that constant column is about \<open>2e-14\<close>, not zero. So here
  every arithmetic result passes through \<open>fl\<close>, the rounding of an exact result to the
  number that is stored. Nothing is assumed of \<open>fl\<close>; at the identity the arithmetic is
  exact.
\<close>

definition computed_mean :: "(real \<Rightarrow> real) \<Rightarrow> real list \<Rightarrow> real" where
  "computed_mean fl vals = fl (foldl (\<lambda>a b. fl (a + b)) 0 vals / of_nat (length vals))"

definition computed_std :: "(real \<Rightarrow> real) \<Rightarrow> real list \<Rightarrow> real" where
  "computed_std fl vals =
     (let mu = computed_mean fl vals;
          variance =
            fl (foldl (\<lambda>a b. fl (a + fl (fl (b - mu) ^ 2))) 0 vals / of_nat (length vals))
      in fl (sqrt variance))"

definition fit :: "(real \<Rightarrow> real) \<Rightarrow> real list \<Rightarrow> real \<times> real" where
  "fit fl vals =
     (let mu = computed_mean fl vals;
          sd = js_or (Some (computed_std fl vals)) 1
      in (mu, sd))"

text \<open>Lines 231 to 239: the scaling parameters of every feature name.\<close>

definition fitScaler ::
  "(real \<Rightarrow> real) \<Rightarrow> features list \<Rightarrow> string list \<Rightarrow> Scaler \<Rightarrow> Scaler" where
  "fitScaler fl fs featureNames sc =
     foldl (\<lambda>sc name.
              (let vals = map (\<lambda>f. feature_at f name) fs; (mu, sd) = fit fl vals
               in sc\<lparr>mean := (mean sc)(name \<mapsto> mu), std := (std sc)(name \<mapsto> sd)\<rparr>))
       sc featureNames"

text \<open>Lines 254 to 256: one draw for each initial weight.\<close>

definition initWeights ::
  "(nat \<Rightarrow> real) \<Rightarrow> string list \<Rightarrow> (string \<rightharpoonup> real) \<times> nat \<Rightarrow> (string \<rightharpoonup> real) \<times> nat" where
  "initWeights rnd featureNames wk =
     foldl (\<lambda>(w, k) name. (w(name \<mapsto> (rnd k - 0.5) * 0.1), Suc k)) wk featureNames"

text \<open>Lines 263 to 277: the gradient of one training example, added to the running sums.\<close>

definition addGradient ::
  "LoanEligibilityModel \<Rightarrow> string list \<Rightarrow> (string \<rightharpoonup> real) \<Rightarrow> features \<times> real
     \<Rightarrow> (string \<rightharpoonup> real)" where
  "addGradient m featureNames gradients example =
     (let f = fst example;
          actual = snd example;
          prediction = weighted_sum m f featureNames;
          prob = sigmoid prediction;
          err = prob - actual
      in foldl (\<lambda>g name. g(name \<mapsto> js_or (g name) 0 + err * feature_at f name))
           gradients featureNames)"

text \<open>Lines 259 to 284: one epoch of batch gradient descent.\<close>

definition epoch ::
  "string list \<Rightarrow> features list \<Rightarrow> real list \<Rightarrow> LoanEligibilityModel \<Rightarrow> LoanEligibilityModel" where
  "epoch featureNames normalizedFeatures actuals m =
     (let learningRate = 0.01;
          zero = foldl (\<lambda>g name. g(name \<mapsto> 0)) Map.empty featureNames;
          gradients = foldl (addGradient m featureNames) zero (zip normalizedFeatures actuals)
      in m\<lparr>weights :=
           foldl (\<lambda>w name.
                    w(name \<mapsto> js_or (w name) 0
                       - learningRate
                           * (js_or (gradients name) 0 / of_nat (length normalizedFeatures))))
             (weights m) featureNames\<rparr>)"

text \<open>
  \<open>trainEnsemble\<close> (lines 227 to 286), with the rounding \<open>fl\<close> of the statistics. On
  an empty training set \<open>features[0]\<close> is \<open>undefined\<close> and \<open>Object.keys\<close> throws a
  \<open>TypeError\<close>.
\<close>

definition trainEnsemble ::
  "(real \<Rightarrow> real) \<Rightarrow> LoanEligibilityModel \<Rightarrow> (nat \<Rightarrow> real) \<Rightarrow> nat \<Rightarrow> TrainingData list
     \<Rightarrow> error + LoanEligibilityModel \<times> nat" where
  "trainEnsemble fl m rnd k trainingData =
     (let fs = map (engineerFeatures m) trainingData
      in case fs of
           [] \<Rightarrow> Inl TypeError
         | f0 # _ \<Rightarrow>
             (let featureNames = map fst f0;
                  m1 = m\<lparr>scaler := fitScaler fl fs featureNames (scaler m)\<rparr>;
                  normalizedFeatures = map (\<lambda>f. normalize m1 f featureNames) fs;
                  epochs = 100;
                  (w, k') = initWeights rnd featureNames (weights m1, k);
                  m2 = m1\<lparr>weights := w\<rparr>
              in Inr ((epoch featureNames normalizedFeatures (map approved trainingData)
                         ^^ epochs) m2, k')))"

section \<open>Evaluation\<close>

text \<open>
  Lines 289 to 299 of \<open>calculateMetrics\<close>: the confusion matrix \<open>(tp, fp, tn, fn)\<close>.
  Past the end of \<open>actuals\<close> the label is \<open>undefined\<close> and no counter moves.
\<close>

fun confusion :: "real list \<Rightarrow> real list \<Rightarrow> nat \<times> nat \<times> nat \<times> nat \<Rightarrow> nat \<times> nat \<times> nat \<times> nat" where
  "confusion [] actuals c = c"
| "confusion (p # predictions) actuals (tp, fp, tn, fn) =
     (let pred = (if p \<ge> 0.5 then 1 else 0 :: nat);
          actual = (case actuals of [] \<Rightarrow> None | a # _ \<Rightarrow> Some a)
      in confusion predictions (tl actuals)
           (if pred = 1 \<and> actual = Some 1 then (tp + 1, fp, tn, fn)
            else if pred = 1 \<and> actual = Some 0 then (tp, fp + 1, tn, fn)
            else if pred = 0 \<and> actual = Some 0 then (tp, fp, tn + 1, fn)
            else if pred = 0 \<and> actual = Some 1 then (tp, fp, tn, fn + 1)
            else (tp, fp, tn, fn)))"

text \<open>
  \<open>calculateMetrics\<close> (lines 288 to 314). With no prediction the accuracy is
  \<open>0 / 0 = NaN\<close>.
\<close>

definition calculateMetrics :: "real list \<Rightarrow> real list \<Rightarrow> ModelMetrics" where
  "calculateMetrics predictions actuals =
     (case confusion predictions actuals (0, 0, 0, 0) of (tp, fp, tn, fn) \<Rightarrow>
        (let n = length predictions;
             accuracy' =
               (if n = 0 then NaN else Num ((real (tp + tn) / real n) * 100));
             precision' = (if tp + fp > 0 then (real tp / real (tp + fp)) * 100 else 0);
             recall' = (if tp + fn > 0 then (real tp / real (tp + fn)) * 100 else 0);
             f1_score' =
               (if precision' + recall' > 0
                then (2 * precision' * recall') / (precision' + recall') else 0)
         in \<lparr>accuracy = accuracy', precision = precision', recall = recall',
             f1_score = f1_score',
             training_samples = \<lfloor>real n * 0.8\<rfloor>,
             validation_samples = \<lceil>real n * 0.2\<rceil>\<rparr>))"

text \<open>
  \<open>train\<close> (lines 316 to 349): the returned metrics, the model after training and the
  next index of the random source. As in the rest of the file the arithmetic is exact:
  \<open>trainEnsemble\<close> runs at the identity.
\<close>

definition train ::
  "LoanEligibilityModel \<Rightarrow> (nat \<Rightarrow> real) \<Rightarrow> nat
     \<Rightarrow> error + ModelMetrics \<times> LoanEligibilityModel \<times> nat" where
  "train m rnd k =
     (let totalSamples = 5000;
          syntheticData = generateSyntheticData m rnd k totalSamples;
          splitIndex = nat \<lfloor>real totalSamples * 0.8\<rfloor>;
          trainingData = take splitIndex syntheticData;
          validationData = drop splitIndex syntheticData
      in case trainEnsemble (\<lambda>x. x) m rnd (k + 8 * totalSamples) trainingData of
           Inl e \<Rightarrow> Inl e
         | Inr (m', k') \<Rightarrow>
             (let validationPredictions =
                    map (\<lambda>d. let f = engineerFeatures m' d;
                                 featureNames = map fst f;
                                 normalized = normalize m' f featureNames
                             in sigmoid (weighted_sum m' normalized featureNames))
                      validationData;
                  actuals = map approved validationData;
                  m'' = m'\<lparr>metrics := calculateMetrics validationPredictions actuals\<rparr>
              in Inr (metrics m'', m'', k')))"


definition trainNewModel ::
  "LoanEligibilityModel option \<Rightarrow> (nat \<Rightarrow> real) \<Rightarrow> nat
     \<Rightarrow> error + ModelMetrics \<times> LoanEligibilityModel option \<times> nat" where
  "trainNewModel globalModel rnd k =
     (case train LoanEligibilityModel_new rnd k of
        Inl e \<Rightarrow> Inl e
      | Inr (r, m, k') \<Rightarrow> Inr (r, Some m, k'))"

section \<open>Reference notions\<close>

text \<open>
  The keys of every engineered feature vector, in insertion order: the value of
  \<open>Object.keys(features)\<close> at lines 230, 328 and 353.
\<close>

definition featureNames :: "string list" where
  "featureNames =
     [''income'', ''credit_history'', ''loan_amount'', ''loan_term'', ''dependents'',
      ''employment_encoded'', ''marital_encoded'', ''loan_to_income_ratio'',
      ''monthly_burden'', ''income_per_dependent'', ''credit_x_income'', ''risk_score'']"

text \<open>
  The applicants on which the three divisions of \<open>engineerFeatures\<close> (lines 176 to
  180) have a non-zero divisor.
\<close>

definition divisors_nonzero :: "'a Applicant_scheme \<Rightarrow> bool" where
  "divisors_nonzero data \<longleftrightarrow>
     income data + 1 \<noteq> 0 \<and> loan_term data \<noteq> 0 \<and> dependents data + 1 \<noteq> 0"

text \<open>
  The \<open>CHECK\<close> constraints of the \<open>applicants\<close> table (the migration, lines 81 to
  90). \<open>submitApplication\<close> inserts the applicant, and stops on an error, before it
  calls \<open>predict\<close>.
\<close>

definition applicants_check :: "'a Applicant_scheme \<Rightarrow> bool" where
  "applicants_check data \<longleftrightarrow>
     income data \<ge> 0 \<and> credit_history data \<ge> 0 \<and> credit_history data \<le> 1
     \<and> loan_amount data > 0 \<and> loan_term data > 0
     \<and> employment_type data \<in> set [''salaried'', ''self_employed'', ''business'']
     \<and> dependents data \<ge> 0
     \<and> marital_status data \<in> set [''single'', ''married'', ''divorced'', ''widowed'']"

text \<open>A model that holds a weight and both scaling parameters for every feature name.\<close>

definition fitted :: "LoanEligibilityModel \<Rightarrow> bool" where
  "fitted m =
     list_all (\<lambda>name. weights m name \<noteq> None \<and> mean (scaler m) name \<noteq> None
                 \<and> std (scaler m) name \<noteq> None) featureNames"



text \<open>The population statistics of a list of values.\<close>

definition population_mean :: "real list \<Rightarrow> real" where
  "population_mean xs = sum_list xs / real (length xs)"

definition population_std :: "real list \<Rightarrow> real" where
  "population_std xs =
     sqrt (sum_list (map (\<lambda>x. (x - population_mean xs) ^ 2) xs) / real (length xs))"

text \<open>An applicant that passes every check of the \<open>applicants\<close> table.\<close>

definition applicantA :: Applicant where
  "applicantA =
     \<lparr>income = 1200000, credit_history = 0.9, loan_amount = 1000000, loan_term = 240,
      employment_type = ''salaried'', dependents = 1, marital_status = ''married''\<rparr>"

text \<open>
  The encoder tables and the feature vector as sections 4.1 and 4.2 of the
  specification word them. They are compared with \<open>engineerFeatures\<close>.
\<close>

definition spec_employment_score :: "string \<Rightarrow> real" where
  "spec_employment_score key =
     (if key = ''salaried'' then 0.8 else if key = ''self_employed'' then 0.5
      else if key = ''business'' then 0.6 else 0.5)"

definition spec_marital_score :: "string \<Rightarrow> real" where
  "spec_marital_score key =
     (if key = ''married'' then 0.7 else if key = ''single'' then 0.5
      else if key = ''divorced'' then 0.4 else if key = ''widowed'' then 0.45 else 0.5)"

definition spec_features :: "'a Applicant_scheme \<Rightarrow> features" where
  "spec_features data =
     (let loan_to_income_ratio = loan_amount data / (income data + 1)
      in [(''income'', income data),
          (''credit_history'', credit_history data),
          (''loan_amount'', loan_amount data),
          (''loan_term'', loan_term data),
          (''dependents'', dependents data),
          (''employment_encoded'', spec_employment_score (employment_type data)),
          (''marital_encoded'', spec_marital_score (marital_status data)),
          (''loan_to_income_ratio'', loan_to_income_ratio),
          (''monthly_burden'', (loan_amount data * 0.01) / loan_term data),
          (''income_per_dependent'', income data / (dependents data + 1)),
          (''credit_x_income'', credit_history data * income data),
          (''risk_score'',
             loan_to_income_ratio * (1 - credit_history data) * (dependents data + 1))])"

text \<open>
  The confusion matrix as section 4.6 of the specification words it: the pairs of a
  prediction and its label, the prediction thresholded at 0.5.
\<close>

definition count_pairs :: "(real \<Rightarrow> real \<Rightarrow> bool) \<Rightarrow> real list \<Rightarrow> real list \<Rightarrow> nat" where
  "count_pairs P predictions actuals =
     length (filter (\<lambda>(p, a). P p a) (zip predictions actuals))"

definition true_positives :: "real list \<Rightarrow> real list \<Rightarrow> nat" where
  "true_positives = count_pairs (\<lambda>p a. p \<ge> 0.5 \<and> a = 1)"

definition false_positives :: "real list \<Rightarrow> real list \<Rightarrow> nat" where
  "false_positives = count_pairs (\<lambda>p a. p \<ge> 0.5 \<and> a = 0)"

definition true_negatives :: "real list \<Rightarrow> real list \<Rightarrow> nat" where
  "true_negatives = count_pairs (\<lambda>p a. p < 0.5 \<and> a = 0)"

definition false_negatives :: "real list \<Rightarrow> real list \<Rightarrow> nat" where
  "false_negatives = count_pairs (\<lambda>p a. p < 0.5 \<and> a = 1)"

text \<open>
  The attribution as section 4.7 of the specification words it: a feature's contribution
  is the absolute value of its normalized value times its weight, and its share is the
  contribution as a percentage of the total.
\<close>

definition contribution :: "LoanEligibilityModel \<Rightarrow> 'a Applicant_scheme \<Rightarrow> string \<Rightarrow> real" where
  "contribution m data name =
     \<bar>(feature_at (engineerFeatures m data) name - js_or (mean (scaler m) name) 0)
          / js_or (std (scaler m) name) 1
        * js_or (weights m name) 0\<bar>"

definition total_contribution :: "LoanEligibilityModel \<Rightarrow> 'a Applicant_scheme \<Rightarrow> real" where
  "total_contribution m data = sum_list (map (contribution m data) featureNames)"

definition share :: "LoanEligibilityModel \<Rightarrow> 'a Applicant_scheme \<Rightarrow> string \<Rightarrow> real" where
  "share m data name = contribution m data name / total_contribution m data * 100"

text \<open>A percentage, a value with two decimals, and the order of two values; none holds of \<open>NaN\<close>.\<close>

fun in_percent_range :: "number \<Rightarrow> bool" where
  "in_percent_range (Num x) = (0 \<le> x \<and> x \<le> 100)"
| "in_percent_range NaN = False"

fun two_decimals :: "number \<Rightarrow> bool" where
  "two_decimals (Num x) = (of_int \<lfloor>x * 100\<rfloor> = x * 100)"
| "two_decimals NaN = False"

fun number_ge :: "number \<Rightarrow> number \<Rightarrow> bool" where
  "number_ge (Num a) (Num b) = (a \<ge> b)"
| "number_ge a b = False"

text \<open>\<open>Math.round(val * 100) / 100\<close> on a real.\<close>

definition round2_real :: "real \<Rightarrow> real" where
  "round2_real x = of_int (js_round (x * 100)) / 100"

text \<open>An applicant with two categorical values that no encoder table holds.\<close>

definition applicantU :: Applicant where
  "applicantU =
     \<lparr>income = 0, credit_history = 0.5, loan_amount = 50000, loan_term = 12,
      employment_type = ''retired'', dependents = 0, marital_status = ''separated''\<rparr>"


text \<open>
  The applicants whose twelve engineered features are finite doubles, and the values
  that an operation on doubles can return.
\<close>

definition features_finite :: "LoanEligibilityModel \<Rightarrow> 'a Applicant_scheme \<Rightarrow> bool" where
  "features_finite m data = list_all (\<lambda>(name, v). is_finite v) (engineerFeatures_ieee m data)"

fun ieee_wf :: "ieee \<Rightarrow> bool" where
  "ieee_wf (Finite x) = (\<bar>x\<bar> < overflow_threshold)"
| "ieee_wf v = True"


text \<open>
  A random source that repeats eight draws, the draws of one sample; the sample that
  \<open>generateSyntheticData\<close> then produces, as an applicant and as a training example.
\<close>

definition rndP :: "nat \<Rightarrow> real" where
  "rndP i = [3 / 16, 1 / 2, 13 / 32, 0, 1 / 2, 1 / 4, 0, 1 / 2] ! (i mod 8)"

definition applicantP :: Applicant where
  "applicantP =
     \<lparr>income = 537500, credit_history = 1 / 2, loan_amount = 2090625, loan_term = 12,
      employment_type = ''self_employed'', dependents = 1, marital_status = ''single''\<rparr>"

definition sampleP :: TrainingData where
  "sampleP =
     \<lparr>income = 537500, credit_history = 1 / 2, loan_amount = 2090625, loan_term = 12,
      employment_type = ''self_employed'', dependents = 1, marital_status = ''single'',
      approved = 0\<rparr>"

text \<open>
  Training examples: one whose credit history is the double nearest to \<open>0.1\<close>, and
  two that differ in income only.
\<close>

definition sampleC :: TrainingData where
  "sampleC =
     \<lparr>income = 1100000, credit_history = 3602879701896397 / 2 ^ 55, loan_amount = 2550000,
      loan_term = 186, employment_type = ''self_employed'', dependents = 2,
      marital_status = ''divorced'', approved = 0\<rparr>"

definition sampleD :: TrainingData where
  "sampleD =
     \<lparr>income = 1100000, credit_history = 1 / 2, loan_amount = 2550000, loan_term = 186,
      employment_type = ''self_employed'', dependents = 2, marital_status = ''divorced'',
      approved = 0\<rparr>"

definition sampleE :: TrainingData where
  "sampleE =
     \<lparr>income = 1300000, credit_history = 1 / 2, loan_amount = 2550000, loan_term = 186,
      employment_type = ''self_employed'', dependents = 2, marital_status = ''divorced'',
      approved = 1\<rparr>"

section \<open>Properties\<close>

subsection \<open>The sigmoid and rounding\<close>



lemma sigmoid_zero: "sigmoid 0 = 1 / 2"
  by (simp add: sigmoid_def)

lemma js_round_mono: "x \<le> y \<Longrightarrow> js_round x \<le> js_round y"
  by (simp add: js_round_def floor_mono)

lemma js_round_of_int: "js_round (of_int k) = k"
  unfolding js_round_def by linarith

lemma js_round_between:
  assumes "of_int lo \<le> x" and "x \<le> of_int hi"
  shows "lo \<le> js_round x \<and> js_round x \<le> hi"
  using js_round_mono [OF assms(1)] js_round_mono [OF assms(2)]
  by (simp add: js_round_of_int)

subsection \<open>Applicants\<close>

lemma applicants_check_divisors: "applicants_check d \<Longrightarrow> divisors_nonzero d"
  by (simp add: applicants_check_def divisors_nonzero_def)


subsection \<open>The fields of a prediction\<close>

lemma keys_engineerFeatures: "map fst (engineerFeatures m d) = featureNames"
  by (simp add: engineerFeatures_def featureNames_def)

lemma feature_at_defined:
  "name \<in> set featureNames \<Longrightarrow> map_of (engineerFeatures m d) name \<noteq> None"
  using keys_engineerFeatures [of m d] by (metis map_of_eq_None_iff set_map)

lemma predict_probability:
  "probability_approved (predict m d) =
     sigmoid (weighted_sum m (normalize m (engineerFeatures m d) featureNames) featureNames)"
  by (simp add: predict_def Let_def keys_engineerFeatures)

lemma predict_status:
  "eligibility_status (predict m d) =
     (if probability_approved (predict m d) \<ge> 0.5 then Approved else Rejected)"
  by (simp add: predict_def Let_def)




subsection \<open>A model without weights\<close>

lemma weighted_sum_no_weights:
  assumes "weights m = Map.empty"
  shows "weighted_sum m f names = 0"
proof -
  have "foldl (\<lambda>logit name. logit + feature_at f name * js_or (weights m name) 0) a names = a"
    for a
    by (induction names arbitrary: a) (simp_all add: assms js_or_def)
  then show ?thesis by (simp add: weighted_sum_def)
qed

lemma new_fields:
  "weights LoanEligibilityModel_new = Map.empty"
  "mean (scaler LoanEligibilityModel_new) = Map.empty"
  "std (scaler LoanEligibilityModel_new) = Map.empty"
  by (simp_all add: LoanEligibilityModel_new_def initializeEncoders_def)

lemma untrained_probability:
  "weights m = Map.empty \<Longrightarrow> probability_approved (predict m d) = 1 / 2"
  by (simp add: predict_probability weighted_sum_no_weights sigmoid_zero)



subsection \<open>Training\<close>

lemma length_generateSyntheticData: "length (generateSyntheticData m rnd k n) = n"
  by (induction n arbitrary: k) simp_all

text \<open>Draws that are not negative, as those of \<open>Math.random()\<close>, give non-zero divisors.\<close>

lemma generateSample_divisors:
  assumes "\<And>i. 0 \<le> rnd i"
  shows "divisors_nonzero (generateSample m rnd k)"
proof -
  have inc: "0 \<le> rnd k * 1800000" using assms [of k] by simp
  have "0 \<le> rnd (k + 3) * 348" using assms [of "k + 3"] by simp
  then have months: "0 \<le> real_of_int \<lfloor>rnd (k + 3) * 348\<rfloor>" by simp
  have "0 \<le> rnd (k + 5) * 5" using assms [of "k + 5"] by simp
  then have dep: "0 \<le> real_of_int \<lfloor>rnd (k + 5) * 5\<rfloor>" by simp
  have "200000 + rnd k * 1800000 + 1 \<noteq> 0" using inc by linarith
  moreover have "12 + real_of_int \<lfloor>rnd (k + 3) * 348\<rfloor> \<noteq> 0" using months by linarith
  moreover have "real_of_int \<lfloor>rnd (k + 5) * 5\<rfloor> + 1 \<noteq> 0" using dep by linarith
  ultimately show ?thesis
    by (simp add: divisors_nonzero_def generateSample_def Let_def)
qed

lemma generateSyntheticData_divisors:
  assumes "\<And>i. 0 \<le> rnd i"
  shows "list_all divisors_nonzero (generateSyntheticData m rnd k n)"
  by (induction n arbitrary: k) (simp_all add: generateSample_divisors [OF assms])

lemma foldl_plus: "foldl (\<lambda>a b. a + g b) a xs = a + sum_list (map g xs)" for a :: real
  by (induction xs arbitrary: a) simp_all

lemma computed_mean_exact: "computed_mean (\<lambda>x. x) vals = population_mean vals"
  using foldl_plus [of "\<lambda>b. b" 0 vals]
  by (simp add: computed_mean_def population_mean_def)

lemma computed_std_exact: "computed_std (\<lambda>x. x) vals = population_std vals"
  using foldl_plus [of "\<lambda>b. (b - population_mean vals) ^ 2" 0 vals]
  by (simp add: computed_std_def Let_def computed_mean_exact population_std_def)

lemma fit_mean: "fst (fit fl vals) = computed_mean fl vals"
  by (simp add: fit_def Let_def)

lemma fit_std:
  "snd (fit fl vals) = (if computed_std fl vals = 0 then 1 else computed_std fl vals)"
  by (simp add: fit_def Let_def js_or_def)

lemma fit_exact:
  "fit (\<lambda>x. x) vals =
     (population_mean vals, if population_std vals = 0 then 1 else population_std vals)"
  using fit_mean [of "\<lambda>x. x" vals] fit_std [of "\<lambda>x. x" vals]
  by (simp add: prod_eq_iff computed_mean_exact computed_std_exact)

lemma fitScaler_snoc:
  "fitScaler fl fs (names @ [x]) sc =
     (let sc' = fitScaler fl fs names sc; vals = map (\<lambda>f. feature_at f x) fs
      in sc'\<lparr>mean := (mean sc')(x \<mapsto> fst (fit fl vals)),
             std := (std sc')(x \<mapsto> snd (fit fl vals))\<rparr>)"
  by (simp add: fitScaler_def Let_def split: prod.splits)

lemma fitScaler_at:
  "name \<in> set names \<Longrightarrow>
     mean (fitScaler fl fs names sc) name
       = Some (fst (fit fl (map (\<lambda>f. feature_at f name) fs)))
     \<and> std (fitScaler fl fs names sc) name
       = Some (snd (fit fl (map (\<lambda>f. feature_at f name) fs)))"
proof (induction names rule: rev_induct)
  case Nil
  then show ?case by simp
next
  case (snoc x xs)
  show ?case
  proof (cases "name = x")
    case True
    then show ?thesis by (simp add: fitScaler_snoc Let_def)
  next
    case False
    with snoc show ?thesis by (simp add: fitScaler_snoc Let_def)
  qed
qed

lemma fitScaler_set:
  "name \<in> set names \<Longrightarrow>
     mean (fitScaler fl fs names sc) name \<noteq> None
     \<and> std (fitScaler fl fs names sc) name \<noteq> None"
  using fitScaler_at [of name names fl fs sc] by simp

lemma foldl_update_dom:
  "dom (foldl (\<lambda>w n. w(n \<mapsto> g w n)) w names) = dom w \<union> set names"
  by (induction names arbitrary: w) (simp_all del: fun_upd_apply)

lemma initWeights_dom:
  "dom (fst (initWeights rnd names (w, k))) = dom w \<union> set names"
  unfolding initWeights_def
  by (induction names arbitrary: w k) (simp_all del: fun_upd_apply)

lemma initWeights_index: "snd (initWeights rnd names (w, k)) = k + length names"
  unfolding initWeights_def by (induction names arbitrary: w k) simp_all

lemma epoch_scaler: "scaler (epoch names nf acts m) = scaler m"
  by (simp add: epoch_def Let_def)

lemma epoch_encoders: "encoders (epoch names nf acts m) = encoders m"
  by (simp add: epoch_def Let_def)

lemma epoch_weights_dom:
  "dom (weights (epoch names nf acts m)) = dom (weights m) \<union> set names"
  by (simp add: epoch_def Let_def foldl_update_dom)

lemma epochs_scaler: "scaler ((epoch names nf acts ^^ n) m) = scaler m"
  by (induction n) (simp_all add: epoch_scaler)

lemma epochs_encoders: "encoders ((epoch names nf acts ^^ n) m) = encoders m"
  by (induction n) (simp_all add: epoch_encoders)

lemma epochs_weights_dom:
  "dom (weights m) \<subseteq> dom (weights ((epoch names nf acts ^^ n) m))"
  by (induction n) (auto simp add: epoch_weights_dom)

text \<open>What \<open>trainEnsemble\<close> leaves on a training set that is not empty.\<close>

lemma trainEnsemble_Cons:
  "\<exists>m'. trainEnsemble fl m rnd k (d # ds) = Inr (m', k + 12)
     \<and> scaler m' = fitScaler fl (map (engineerFeatures m) (d # ds)) featureNames (scaler m)
     \<and> encoders m' = encoders m
     \<and> (\<forall>name \<in> set featureNames. weights m' name \<noteq> None)"
proof -
  let ?fs = "map (engineerFeatures m) (d # ds)"
  let ?m1 = "m\<lparr>scaler := fitScaler fl ?fs featureNames (scaler m)\<rparr>"
  let ?nf = "map (\<lambda>f. normalize ?m1 f featureNames) ?fs"
  let ?wk = "initWeights rnd featureNames (weights ?m1, k)"
  let ?m' = "(epoch featureNames ?nf (map approved (d # ds)) ^^ 100) (?m1\<lparr>weights := fst ?wk\<rparr>)"
  have len: "length featureNames = 12" by (simp add: featureNames_def)
  have "trainEnsemble fl m rnd k (d # ds) = Inr (?m', snd ?wk)"
    by (simp add: trainEnsemble_def Let_def keys_engineerFeatures split: prod.splits)
  moreover have "snd ?wk = k + 12"
    using initWeights_index [of rnd featureNames "weights ?m1" k] len by simp
  moreover have "scaler ?m' = fitScaler fl ?fs featureNames (scaler m)"
    by (simp add: epochs_scaler)
  moreover have "encoders ?m' = encoders m"
    by (simp add: epochs_encoders)
  moreover have "\<forall>name \<in> set featureNames. weights ?m' name \<noteq> None"
  proof
    fix name assume "name \<in> set featureNames"
    then have "name \<in> dom (weights (?m1\<lparr>weights := fst ?wk\<rparr>))"
      by (simp add: initWeights_dom)
    then have "name \<in> dom (weights ?m')"
      using epochs_weights_dom by blast
    then show "weights ?m' name \<noteq> None" by (simp add: domIff)
  qed
  ultimately show ?thesis by simp
qed

lemma calculateMetrics_samples:
  "training_samples (calculateMetrics ps acts) = \<lfloor>real (length ps) * 0.8\<rfloor>"
  "validation_samples (calculateMetrics ps acts) = \<lceil>real (length ps) * 0.2\<rceil>"
  by (simp_all add: calculateMetrics_def Let_def split: prod.splits)

lemma train_result:
  "\<exists>m1 m'. train m rnd k = Inr (metrics m', m', k + 40012)
     \<and> m' = m1\<lparr>metrics := metrics m'\<rparr>
     \<and> encoders m1 = encoders m
     \<and> scaler m1 =
         fitScaler (\<lambda>x. x)
           (map (engineerFeatures m) (take 4000 (generateSyntheticData m rnd k 5000)))
           featureNames (scaler m)
     \<and> (\<forall>name \<in> set featureNames. weights m1 name \<noteq> None \<and> mean (scaler m1) name \<noteq> None
           \<and> std (scaler m1) name \<noteq> None)
     \<and> training_samples (metrics m') = 800 \<and> validation_samples (metrics m') = 200"
proof -
  let ?data = "generateSyntheticData m rnd k 5000"
  have len: "length ?data = 5000" by (rule length_generateSyntheticData)
  then obtain d ds where tr: "take 4000 ?data = d # ds"
    by (cases "take 4000 ?data") auto
  from trainEnsemble_Cons [of "\<lambda>x. x" m rnd "k + 8 * 5000" d ds]
  obtain m1 where m1:
    "trainEnsemble (\<lambda>x. x) m rnd (k + 8 * 5000) (d # ds) = Inr (m1, k + 8 * 5000 + 12)"
    "scaler m1 = fitScaler (\<lambda>x. x) (map (engineerFeatures m) (d # ds)) featureNames (scaler m)"
    "encoders m1 = encoders m" "\<forall>name \<in> set featureNames. weights m1 name \<noteq> None"
    by blast
  have vlen: "length (drop 4000 ?data) = 1000" using len by simp
  have "\<forall>name \<in> set featureNames. mean (scaler m1) name \<noteq> None
           \<and> std (scaler m1) name \<noteq> None"
    using m1(2) fitScaler_set by simp
  moreover have "scaler m1 =
      fitScaler (\<lambda>x. x) (map (engineerFeatures m) (take 4000 ?data)) featureNames (scaler m)"
    using m1(2) by (simp only: tr)
  ultimately show ?thesis
    using m1(1,3,4) tr vlen
    apply (simp add: train_def Let_def calculateMetrics_samples)
    apply (rule exI [of _ m1])
    apply simp
    done
qed

text \<open>Training leaves the encoder tables as they were.\<close>

lemma train_encoders:
  "(case train m rnd k of Inl e \<Rightarrow> False | Inr (r, m', k') \<Rightarrow> encoders m' = encoders m)"
proof -
  from train_result [of m rnd k] obtain m1 m' where
    tr: "train m rnd k = Inr (metrics m', m', k + 40012)"
    and m': "m' = m1\<lparr>metrics := metrics m'\<rparr>"
    and enc: "encoders m1 = encoders m"
    by blast
  have "encoders m' = encoders m1" by (subst m') simp
  with tr enc show ?thesis by simp
qed

subsection \<open>The special values\<close>




lemma to_ieee_finite: "\<bar>x\<bar> < overflow_threshold \<Longrightarrow> to_ieee x = Finite x"
  by (simp add: to_ieee_def)




lemma wf_to_ieee: "ieee_wf (to_ieee x)"
  by (simp add: to_ieee_def)


lemma wf_neg: "ieee_wf a \<Longrightarrow> ieee_wf (ieee_neg a)"
  by (cases a) simp_all

lemma wf_add: "ieee_wf (ieee_add a b)"
  by (cases a; cases b) (simp_all add: wf_to_ieee)

lemma wf_sub: "ieee_wf (ieee_sub a b)"
  by (simp add: ieee_sub_def wf_add)





lemma wf_is_finite: "ieee_wf v \<Longrightarrow> is_finite v = (\<exists>x. v = Finite x)"
  by (cases v) simp_all



















text \<open>
  The features are finite for every applicant that passes the checks of the table with
  amounts, term and dependents up to \<open>1e100\<close> and a term of at least one month.
\<close>

lemma is_finite_to_ieee: "is_finite (to_ieee x) = (\<bar>x\<bar> < overflow_threshold)"
  by (simp add: to_ieee_def)

lemma features_finite_bounded:
  assumes enc: "encoders m = encoders LoanEligibilityModel_new"
    and chk: "applicants_check d"
    and bnd: "income d \<le> 10 ^ 100" "loan_amount d \<le> 10 ^ 100" "1 \<le> loan_term d"
      "loan_term d \<le> 10 ^ 100" "dependents d \<le> 10 ^ 100"
  shows "features_finite m d"
proof -
  define B :: real where "B = 10 ^ 100"
  define T where "T = overflow_threshold"
  have B: "1 \<le> B" "B * (B + 1) < T"
    by (simp_all add: B_def T_def overflow_threshold_def)
  have "1 * 1 \<le> B * B"
    using B(1) by (intro mult_mono) simp_all
  then have BB: "B \<le> B * (B + 1)" "B + 1 \<le> B * (B + 1)"
    by (simp_all add: algebra_simps)
  let ?inc = "income d" and ?ch = "credit_history d" and ?la = "loan_amount d"
  let ?tm = "loan_term d" and ?dep = "dependents d"
  let ?e = "encode m ''employment_type'' (employment_type d)"
  let ?ms = "encode m ''marital_status'' (marital_status d)"
  have inc: "0 \<le> ?inc" "?inc \<le> B" and ch: "0 \<le> ?ch" "?ch \<le> 1"
    and la: "0 < ?la" "?la \<le> B" and tm: "1 \<le> ?tm" "?tm \<le> B"
    and dep: "0 \<le> ?dep" "?dep \<le> B"
    using chk bnd by (simp_all add: applicants_check_def B_def)
  have e: "0 \<le> ?e" "?e \<le> 1" and ms: "0 \<le> ?ms" "?ms \<le> 1"
    using chk
    by (auto simp: applicants_check_def encode_def enc LoanEligibilityModel_new_def
        initializeEncoders_def js_or_def)
  have fin: "to_ieee x = Finite x" if "0 \<le> x" "x \<le> B * (B + 1)" for x
    using that B(2) by (intro to_ieee_finite) (simp add: T_def)
  have lti: "0 \<le> ?la / (?inc + 1)" "?la / (?inc + 1) \<le> B"
  proof -
    show "0 \<le> ?la / (?inc + 1)" using la inc by simp
    have "?la / (?inc + 1) \<le> ?la / 1"
      using la inc by (intro divide_left_mono) simp_all
    then show "?la / (?inc + 1) \<le> B" using la by simp
  qed
  have mb: "0 \<le> ?la * 0.01 / ?tm" "?la * 0.01 / ?tm \<le> B"
  proof -
    show "0 \<le> ?la * 0.01 / ?tm" using la tm by simp
    have "?la * 0.01 / ?tm \<le> ?la * 0.01 / 1"
      using la tm by (intro divide_left_mono) simp_all
    then show "?la * 0.01 / ?tm \<le> B" using la by simp
  qed
  have ipd: "0 \<le> ?inc / (?dep + 1)" "?inc / (?dep + 1) \<le> B"
  proof -
    show "0 \<le> ?inc / (?dep + 1)" using inc dep by simp
    have "?inc / (?dep + 1) \<le> ?inc / 1"
      using inc dep by (intro divide_left_mono) simp_all
    then show "?inc / (?dep + 1) \<le> B" using inc by simp
  qed
  have cxi: "0 \<le> ?ch * ?inc" "?ch * ?inc \<le> B"
  proof -
    show "0 \<le> ?ch * ?inc" using ch inc by simp
    have "?ch * ?inc \<le> 1 * B" using ch inc by (intro mult_mono) simp_all
    then show "?ch * ?inc \<le> B" by simp
  qed
  have r1: "0 \<le> ?la / (?inc + 1) * (1 - ?ch)" "?la / (?inc + 1) * (1 - ?ch) \<le> B"
  proof -
    show "0 \<le> ?la / (?inc + 1) * (1 - ?ch)"
      by (rule mult_nonneg_nonneg [OF lti(1)]) (use ch in simp)
    have "?la / (?inc + 1) * (1 - ?ch) \<le> B * 1"
      by (rule mult_mono [OF lti(2)]) (use ch B(1) in simp_all)
    then show "?la / (?inc + 1) * (1 - ?ch) \<le> B" by simp
  qed
  have r2: "0 \<le> ?la / (?inc + 1) * (1 - ?ch) * (?dep + 1)"
    "?la / (?inc + 1) * (1 - ?ch) * (?dep + 1) \<le> B * (B + 1)"
  proof -
    show "0 \<le> ?la / (?inc + 1) * (1 - ?ch) * (?dep + 1)"
      by (rule mult_nonneg_nonneg [OF r1(1)]) (use dep in simp)
    show "?la / (?inc + 1) * (1 - ?ch) * (?dep + 1) \<le> B * (B + 1)"
      by (rule mult_mono [OF r1(2)]) (use dep B(1) in simp_all)
  qed
  have up: "x \<le> B * (B + 1)" if "x \<le> B" for x using that BB by linarith
  have up1: "x + 1 \<le> B * (B + 1)" if "x \<le> B" for x using that BB by linarith
  have t: "to_ieee ?inc = Finite ?inc" "to_ieee ?ch = Finite ?ch" "to_ieee ?la = Finite ?la"
    "to_ieee ?tm = Finite ?tm" "to_ieee ?dep = Finite ?dep" "to_ieee ?e = Finite ?e"
    "to_ieee ?ms = Finite ?ms"
    using inc ch la tm dep e ms B(1) by (auto intro!: fin up)
  have a1: "to_ieee (?inc + 1) = Finite (?inc + 1)" "to_ieee (?dep + 1) = Finite (?dep + 1)"
    using inc dep by (auto intro!: fin up1)
  have a2: "to_ieee (1 + - ?ch) = Finite (1 - ?ch)"
    using ch B(1) fin [of "1 - ?ch"] up [of "1 - ?ch"] by simp
  have a3: "to_ieee (?la * 0.01) = Finite (?la * 0.01)"
    using la by (auto intro!: fin up)
  have nz: "(?inc + 1 = 0) = False" "(?tm = 0) = False" "(?dep + 1 = 0) = False"
    using inc tm dep by simp_all
  have d1: "to_ieee (?la / (?inc + 1)) = Finite (?la / (?inc + 1))"
    "to_ieee (?la * 0.01 / ?tm) = Finite (?la * 0.01 / ?tm)"
    "to_ieee (?inc / (?dep + 1)) = Finite (?inc / (?dep + 1))"
    "to_ieee (?ch * ?inc) = Finite (?ch * ?inc)"
    "to_ieee (?la / (?inc + 1) * (1 - ?ch)) = Finite (?la / (?inc + 1) * (1 - ?ch))"
    "to_ieee (?la / (?inc + 1) * (1 - ?ch) * (?dep + 1))
       = Finite (?la / (?inc + 1) * (1 - ?ch) * (?dep + 1))"
    using lti mb ipd cxi r1 r2 by (auto intro!: fin up)
  have lt: "\<bar>x\<bar> < overflow_threshold" if "0 \<le> x" "x \<le> B * (B + 1)" for x
    using that B(2) by (simp add: T_def)
  have le1: "x \<le> B * (B + 1)" if "x \<le> 1" for x using that B(1) BB by linarith
  have f: "\<bar>?inc\<bar> < overflow_threshold" "\<bar>?ch\<bar> < overflow_threshold"
    "\<bar>?la\<bar> < overflow_threshold" "\<bar>?tm\<bar> < overflow_threshold"
    "\<bar>?dep\<bar> < overflow_threshold" "\<bar>?e\<bar> < overflow_threshold"
    "\<bar>?ms\<bar> < overflow_threshold"
    "\<bar>?la / (?inc + 1)\<bar> < overflow_threshold"
    "\<bar>?la * 0.01 / ?tm\<bar> < overflow_threshold"
    "\<bar>?inc / (?dep + 1)\<bar> < overflow_threshold"
    "\<bar>?ch * ?inc\<bar> < overflow_threshold"
    "\<bar>?la / (?inc + 1) * (1 - ?ch) * (?dep + 1)\<bar> < overflow_threshold"
  proof -
    show "\<bar>?inc\<bar> < overflow_threshold" by (rule lt [OF inc(1) up [OF inc(2)]])
    show "\<bar>?ch\<bar> < overflow_threshold" by (rule lt [OF ch(1) le1 [OF ch(2)]])
    show "\<bar>?la\<bar> < overflow_threshold"
      by (rule lt [OF less_imp_le [OF la(1)] up [OF la(2)]])
    show "\<bar>?tm\<bar> < overflow_threshold" by (rule lt [OF _ up [OF tm(2)]]) (use tm in simp)
    show "\<bar>?dep\<bar> < overflow_threshold" by (rule lt [OF dep(1) up [OF dep(2)]])
    show "\<bar>?e\<bar> < overflow_threshold" by (rule lt [OF e(1) le1 [OF e(2)]])
    show "\<bar>?ms\<bar> < overflow_threshold" by (rule lt [OF ms(1) le1 [OF ms(2)]])
    show "\<bar>?la / (?inc + 1)\<bar> < overflow_threshold"
      by (rule lt [OF lti(1) up [OF lti(2)]])
    show "\<bar>?la * 0.01 / ?tm\<bar> < overflow_threshold"
      by (rule lt [OF mb(1) up [OF mb(2)]])
    show "\<bar>?inc / (?dep + 1)\<bar> < overflow_threshold"
      by (rule lt [OF ipd(1) up [OF ipd(2)]])
    show "\<bar>?ch * ?inc\<bar> < overflow_threshold"
      by (rule lt [OF cxi(1) up [OF cxi(2)]])
    show "\<bar>?la / (?inc + 1) * (1 - ?ch) * (?dep + 1)\<bar> < overflow_threshold"
      by (rule lt [OF r2])
  qed
  show ?thesis
    unfolding features_finite_def engineerFeatures_ieee_def Let_def ieee_sub_def t
      ieee_neg.simps ieee_add.simps(1) ieee_mul.simps(1) ieee_div.simps(1) a1 a2 a3 d1
      nz if_False
    using f by simp
qed

subsection \<open>The claims on training, the untrained model and the decision\<close>

text \<open>
  C1. The claim: after the run over 5000 generated samples the metrics returned by
  \<open>train\<close> report 4000 training samples and 1000 validation samples. The code
  computes both counts inside \<open>calculateMetrics\<close> from the number of predictions it
  is given, which are the 1000 validation predictions: whatever the random source
  draws, \<open>train\<close> splits the 5000 samples into 4000 and 1000, returns, and reports
  800 and 200.
\<close>

theorem train_reports_800_200:
  "length (take (nat \<lfloor>real 5000 * 0.8\<rfloor>) (generateSyntheticData m rnd k 5000)) = 4000
   \<and> length (drop (nat \<lfloor>real 5000 * 0.8\<rfloor>) (generateSyntheticData m rnd k 5000)) = 1000
   \<and> (case train m rnd k of
         Inl e \<Rightarrow> False
       | Inr (r, m', k') \<Rightarrow>
           training_samples r = 800 \<and> validation_samples r = 200 \<and> r = metrics m')"
proof -
  from train_result [of m rnd k] obtain m' where
    "train m rnd k = Inr (metrics m', m', k + 40012)"
    "training_samples (metrics m') = 800" "validation_samples (metrics m') = 200"
    by blast
  then show ?thesis by (simp add: length_generateSyntheticData)
qed




text \<open>
  C3. For every model and every applicant, \<open>predict\<close> returns the status Approved
  exactly when the returned probability is at least 0.5; the value 0.5 itself is
  Approved.
\<close>

theorem status_iff_probability:
  "(eligibility_status (predict m d) = Approved)
     = (probability_approved (predict m d) \<ge> 1 / 2)"
  by (simp add: predict_status)

text \<open>The boundary is met: without weights the probability is 0.5 and the status Approved.\<close>

theorem status_iff_probability_witness:
  "probability_approved (predict LoanEligibilityModel_new applicantA) = 1 / 2
   \<and> eligibility_status (predict LoanEligibilityModel_new applicantA) = Approved"
  using status_iff_probability [of LoanEligibilityModel_new applicantA]
  by (simp add: untrained_probability new_fields)








subsection \<open>Feature engineering\<close>

lemma encode_employment:
  "encoders m = encoders LoanEligibilityModel_new \<Longrightarrow>
     encode m ''employment_type'' key = spec_employment_score key"
  by (simp add: encode_def LoanEligibilityModel_new_def initializeEncoders_def js_or_def
      spec_employment_score_def)

lemma encode_marital:
  "encoders m = encoders LoanEligibilityModel_new \<Longrightarrow>
     encode m ''marital_status'' key = spec_marital_score key"
  by (simp add: encode_def LoanEligibilityModel_new_def initializeEncoders_def js_or_def
      spec_marital_score_def)

text \<open>
  C7. On every model that holds the constructor's encoder tables, as every model does
  that \<open>train\<close> returns from them (\<open>train_encoders\<close>), and for every applicant,
  \<open>engineerFeatures\<close> returns the twelve entries of the specification, in
  the fixed order and under distinct names: the five raw fields, the two encodings (with
  0.5 for any key outside the tables) and the five derived features by the stated
  formulas.
\<close>

theorem engineerFeatures_spec:
  assumes "encoders m = encoders LoanEligibilityModel_new"
  shows "engineerFeatures m d = spec_features d
         \<and> map fst (engineerFeatures m d) = featureNames
         \<and> length (engineerFeatures m d) = 12
         \<and> distinct (map fst (engineerFeatures m d))"
proof -
  have "engineerFeatures m d = spec_features d"
    by (simp add: engineerFeatures_def spec_features_def Let_def
        encode_employment [OF assms] encode_marital [OF assms])
  moreover have "length (engineerFeatures m d) = 12"
    by (simp add: engineerFeatures_def)
  moreover have "distinct featureNames"
    by (simp add: featureNames_def)
  ultimately show ?thesis
    using keys_engineerFeatures [of m d] by simp
qed

text \<open>
  The hypothesis holds of the constructor's model; an applicant with unknown
  categorical keys gets 0.5 for both encodings.
\<close>

theorem engineerFeatures_spec_witness:
  "encoders LoanEligibilityModel_new = encoders LoanEligibilityModel_new
   \<and> engineerFeatures LoanEligibilityModel_new applicantU =
       [(''income'', 0), (''credit_history'', 0.5), (''loan_amount'', 50000),
        (''loan_term'', 12), (''dependents'', 0), (''employment_encoded'', 0.5),
        (''marital_encoded'', 0.5), (''loan_to_income_ratio'', 50000),
        (''monthly_burden'', 125 / 3), (''income_per_dependent'', 0),
        (''credit_x_income'', 0), (''risk_score'', 25000)]"
  using engineerFeatures_spec [of LoanEligibilityModel_new applicantU]
  by (simp add: spec_features_def applicantU_def spec_employment_score_def
      spec_marital_score_def)

subsection \<open>Evaluation\<close>

lemma count_pairs_Nil [simp]: "count_pairs P [] acts = 0" "count_pairs P ps [] = 0"
  by (simp_all add: count_pairs_def)

lemma count_pairs_Cons [simp]:
  "count_pairs P (p # ps) (a # acts) = (if P p a then 1 else 0) + count_pairs P ps acts"
  by (simp add: count_pairs_def)

lemma confusion_counts:
  "confusion ps acts (tp, fp, tn, fn) =
     (tp + true_positives ps acts, fp + false_positives ps acts,
      tn + true_negatives ps acts, fn + false_negatives ps acts)"
proof (induction ps arbitrary: acts tp fp tn fn)
  case Nil
  then show ?case
    by (simp add: true_positives_def false_positives_def true_negatives_def
        false_negatives_def)
next
  case (Cons p ps)
  show ?case
  proof (cases acts)
    case Nil
    have "confusion ps [] (tp, fp, tn, fn) = (tp, fp, tn, fn)"
      using Cons.IH [of "[]" tp fp tn fn]
      by (simp add: true_positives_def false_positives_def true_negatives_def
          false_negatives_def)
    then show ?thesis
      using Nil
      by (simp add: true_positives_def false_positives_def true_negatives_def
          false_negatives_def)
  next
    case (Cons a as)
    then show ?thesis
      by (simp add: Cons.IH true_positives_def false_positives_def true_negatives_def
          false_negatives_def)
  qed
qed

lemma counts_le_length:
  "true_positives ps acts + false_positives ps acts + true_negatives ps acts
     + false_negatives ps acts \<le> length ps"
proof (induction ps arbitrary: acts)
  case Nil
  then show ?case
    by (simp add: true_positives_def false_positives_def true_negatives_def
        false_negatives_def)
next
  case (Cons p ps)
  show ?case
  proof (cases acts)
    case Nil
    then show ?thesis
      by (simp add: true_positives_def false_positives_def true_negatives_def
          false_negatives_def)
  next
    case (Cons a as)
    with Cons.IH [of as] show ?thesis
      by (simp add: true_positives_def false_positives_def true_negatives_def
          false_negatives_def)
  qed
qed

lemma percent_bounds:
  fixes a b :: nat
  assumes "a \<le> b"
  shows "0 \<le> real a / real b * 100 \<and> real a / real b * 100 \<le> 100"
proof (cases "b = 0")
  case True
  then show ?thesis by simp
next
  case False
  then have "real a / real b \<le> 1" using assms by simp
  then have "real a / real b * 100 \<le> 1 * 100"
    by (rule mult_right_mono) simp
  then show ?thesis by simp
qed

lemma f1_bounds:
  fixes P R :: real
  assumes "0 \<le> P" "P \<le> 100" "0 \<le> R" "R \<le> 100" "0 < P + R"
  shows "0 \<le> 2 * P * R / (P + R) \<and> 2 * P * R / (P + R) \<le> 100"
proof -
  have "P * R \<le> 100 * R" "P * R \<le> P * 100"
    using assms by (simp_all add: mult_right_mono mult_left_mono)
  then have "2 * P * R \<le> 100 * (P + R)" by (simp add: algebra_simps)
  then have "2 * P * R / (P + R) \<le> 100"
    using assms(5) by (simp add: pos_divide_le_eq)
  moreover have "0 \<le> 2 * P * R / (P + R)"
    using assms by simp
  ultimately show ?thesis by simp
qed

text \<open>
  C6. For every non-empty list of predictions, and every list of labels,
  \<open>calculateMetrics\<close> thresholds the predictions at 0.5 and returns the accuracy
  \<open>(tp + tn) / n * 100\<close>, the precision \<open>tp / (tp + fp) * 100\<close> (0 when
  \<open>tp + fp = 0\<close>), the recall \<open>tp / (tp + fn) * 100\<close> (0 when \<open>tp + fn = 0\<close>) and
  the f1 score \<open>2 * precision * recall / (precision + recall)\<close> (0 when the sum is 0);
  the four values lie between 0 and 100.
\<close>

theorem calculateMetrics_spec:
  assumes "0 < length predictions"
  shows
    "(let tp = true_positives predictions actuals;
          fp = false_positives predictions actuals;
          tn = true_negatives predictions actuals;
          fn = false_negatives predictions actuals;
          n = length predictions;
          r = calculateMetrics predictions actuals
      in accuracy r = Num (real (tp + tn) / real n * 100)
         \<and> precision r = (if tp + fp = 0 then 0 else real tp / real (tp + fp) * 100)
         \<and> recall r = (if tp + fn = 0 then 0 else real tp / real (tp + fn) * 100)
         \<and> f1_score r =
             (if precision r + recall r = 0 then 0
              else 2 * precision r * recall r / (precision r + recall r))
         \<and> 0 \<le> real (tp + tn) / real n * 100 \<and> real (tp + tn) / real n * 100 \<le> 100
         \<and> 0 \<le> precision r \<and> precision r \<le> 100
         \<and> 0 \<le> recall r \<and> recall r \<le> 100
         \<and> 0 \<le> f1_score r \<and> f1_score r \<le> 100)"
proof -
  let ?tp = "true_positives predictions actuals"
  let ?fp = "false_positives predictions actuals"
  let ?tn = "true_negatives predictions actuals"
  let ?fn = "false_negatives predictions actuals"
  let ?n = "length predictions"
  let ?r = "calculateMetrics predictions actuals"
  let ?P = "if ?tp + ?fp = 0 then 0 else real ?tp / real (?tp + ?fp) * 100"
  let ?R = "if ?tp + ?fn = 0 then 0 else real ?tp / real (?tp + ?fn) * 100"
  have le: "?tp + ?fp + ?tn + ?fn \<le> ?n" by (rule counts_le_length)
  have acc: "accuracy ?r = Num (real (?tp + ?tn) / real ?n * 100)"
    using assms by (simp add: calculateMetrics_def confusion_counts Let_def)
  have prec: "precision ?r = ?P"
    by (simp add: calculateMetrics_def confusion_counts Let_def)
  have rec: "recall ?r = ?R"
    by (simp add: calculateMetrics_def confusion_counts Let_def)
  have Pb: "0 \<le> ?P \<and> ?P \<le> 100"
    using percent_bounds [of ?tp "?tp + ?fp"] by simp
  have Rb: "0 \<le> ?R \<and> ?R \<le> 100"
    using percent_bounds [of ?tp "?tp + ?fn"] by simp
  have f1: "f1_score ?r = (if ?P + ?R > 0 then 2 * ?P * ?R / (?P + ?R) else 0)"
    by (simp add: calculateMetrics_def confusion_counts Let_def)
  have f1': "f1_score ?r = (if ?P + ?R = 0 then 0 else 2 * ?P * ?R / (?P + ?R))"
  proof (cases "?P + ?R = 0")
    case True
    then show ?thesis by (simp only: f1) simp
  next
    case False
    with Pb Rb have "?P + ?R > 0" by linarith
    with False show ?thesis by (simp only: f1) simp
  qed
  have f1b: "0 \<le> f1_score ?r \<and> f1_score ?r \<le> 100"
  proof (cases "?P + ?R > 0")
    case True
    from f1_bounds [of ?P ?R] Pb Rb True
    have "0 \<le> 2 * ?P * ?R / (?P + ?R) \<and> 2 * ?P * ?R / (?P + ?R) \<le> 100" by blast
    with True show ?thesis by (simp only: f1) simp
  next
    case False
    then show ?thesis by (simp only: f1) simp
  qed
  have accb: "0 \<le> real (?tp + ?tn) / real ?n * 100 \<and> real (?tp + ?tn) / real ?n * 100 \<le> 100"
    using percent_bounds [of "?tp + ?tn" ?n] le by simp
  from acc f1' f1b accb Pb Rb show ?thesis
    unfolding Let_def prec rec by blast
qed

text \<open>A run of the evaluation: two true positives, one of each other kind.\<close>

theorem calculateMetrics_spec_witness:
  "0 < length [0.9, 0.6, 0.5, 0.2, 0.4 :: real]
   \<and> accuracy (calculateMetrics [0.9, 0.6, 0.5, 0.2, 0.4] [1, 0, 1, 0, 1]) = Num 60
   \<and> precision (calculateMetrics [0.9, 0.6, 0.5, 0.2, 0.4] [1, 0, 1, 0, 1]) = 200 / 3
   \<and> recall (calculateMetrics [0.9, 0.6, 0.5, 0.2, 0.4] [1, 0, 1, 0, 1]) = 200 / 3
   \<and> f1_score (calculateMetrics [0.9, 0.6, 0.5, 0.2, 0.4] [1, 0, 1, 0, 1]) = 200 / 3"
proof -
  have counts:
    "true_positives [0.9, 0.6, 0.5, 0.2, 0.4] [1, 0, 1, 0, 1] = 2"
    "false_positives [0.9, 0.6, 0.5, 0.2, 0.4] [1, 0, 1, 0, 1] = 1"
    "true_negatives [0.9, 0.6, 0.5, 0.2, 0.4] [1, 0, 1, 0, 1] = 1"
    "false_negatives [0.9, 0.6, 0.5, 0.2, 0.4] [1, 0, 1, 0, 1] = 1"
    by (simp_all add: true_positives_def false_positives_def true_negatives_def
        false_negatives_def)
  let ?r = "calculateMetrics [0.9, 0.6, 0.5, 0.2, 0.4] [1, 0, 1, 0, 1]"
  have len: "0 < length [0.9, 0.6, 0.5, 0.2, 0.4 :: real]" by simp
  note spec = calculateMetrics_spec [OF len, of "[1, 0, 1, 0, 1]", unfolded Let_def counts]
  from spec have acc: "accuracy ?r = Num 60" by simp
  from spec have prec: "precision ?r = 200 / 3" by simp
  from spec have rec: "recall ?r = 200 / 3" by simp
  from spec have "f1_score ?r =
      (if precision ?r + recall ?r = 0 then 0
       else 2 * precision ?r * recall ?r / (precision ?r + recall ?r))"
    by blast
  then have "f1_score ?r = 200 / 3"
    unfolding prec rec by simp
  with len acc prec rec show ?thesis by blast
qed

subsection \<open>Scaling parameters\<close>

lemma js_or_Some_zero: "js_or (Some x) 0 = x"
  by (simp add: js_or_def)

lemma js_or_one_nonzero: "js_or v 1 \<noteq> 0"
  by (simp add: js_or_def split: option.splits)

lemma population_std_nonneg: "0 \<le> population_std xs"
proof -
  have "0 \<le> sum_list (map (\<lambda>x. (x - population_mean xs) ^ 2) xs)"
    by (rule sum_list_nonneg) auto
  then show ?thesis
    by (simp add: population_std_def)
qed

lemma pow2_powr: "pow2 e = 2 powr (of_int e)"
proof (cases "e \<ge> 0")
  case True
  then have "2 powr (of_int e) = (2::real) powr (real (nat e))" by simp
  also have "\<dots> = 2 ^ nat e" by (rule powr_realpow) simp
  finally show ?thesis using True by (simp add: pow2_def)
next
  case False
  then have "(2::real) powr (of_int e) = 2 powr (- real (nat (- e)))" by simp
  also have "\<dots> = 1 / 2 powr (real (nat (- e)))" by (simp add: powr_minus divide_simps)
  also have "2 powr (real (nat (- e))) = (2::real) ^ nat (- e)" by (rule powr_realpow) simp
  finally show ?thesis using False by (simp add: pow2_def)
qed

lemma floor_log2:
  assumes "pow2 j \<le> \<bar>x\<bar>" and "\<bar>x\<bar> < pow2 (j + 1)"
  shows "\<lfloor>log 2 \<bar>x\<bar>\<rfloor> = j"
proof -
  have pos: "0 < \<bar>x\<bar>"
    using assms(1) by (simp add: pow2_powr) (smt (verit) powr_gt_zero)
  have "of_int j \<le> log 2 \<bar>x\<bar>"
    using assms(1) pos by (simp add: pow2_powr le_log_iff)
  moreover have "log 2 \<bar>x\<bar> < of_int (j + 1)"
    using assms(2) pos by (simp add: pow2_powr log_less_iff)
  ultimately show ?thesis by linarith
qed

lemma binary64_eval:
  assumes "pow2 j \<le> \<bar>x\<bar>" and "\<bar>x\<bar> < pow2 (j + 1)" and "- 1022 \<le> j"
  shows "binary64 x = of_int (round_ties_even (x / pow2 (j - 52))) * pow2 (j - 52)"
proof -
  have "0 < pow2 j" by (simp add: pow2_powr)
  with assms(1) have "x \<noteq> 0" by auto
  moreover have "max (j - 52) (- 1074) = j - 52" using assms(3) by simp
  ultimately show ?thesis
    by (simp add: binary64_def Let_def floor_log2 [OF assms(1,2)])
qed

lemma binary64_zero: "binary64 0 = 0"
  by (simp add: binary64_def)

lemma mean_constant_column:
  "computed_mean binary64
     [3602879701896397 / 2 ^ 55, 3602879701896397 / 2 ^ 55, 3602879701896397 / 2 ^ 55]
   = 7205759403792795 / 2 ^ 56"
proof -
  define a :: real where "a = 3602879701896397 / 2 ^ 55"
  define b :: real where "b = 3602879701896397 / 2 ^ 54"
  define c :: real where "c = 5404319552844596 / 2 ^ 54"
  define mu :: real where "mu = 7205759403792795 / 2 ^ 56"
  have s1: "binary64 (0 + a) = a"
    by (subst binary64_eval [where j = "- 4"])
      (simp_all add: a_def pow2_def round_ties_even_def Let_def)
  have s2: "binary64 (a + a) = b"
    by (subst binary64_eval [where j = "- 3"])
      (simp_all add: a_def b_def pow2_def round_ties_even_def Let_def)
  have s3: "binary64 (b + a) = c"
    by (subst binary64_eval [where j = "- 2"])
      (simp_all add: a_def b_def c_def pow2_def round_ties_even_def Let_def)
  have s4: "binary64 (c / 3) = mu"
    by (subst binary64_eval [where j = "- 4"])
      (simp_all add: c_def mu_def pow2_def round_ties_even_def Let_def)
  have len: "of_nat (length [a, a, a]) = (3::real)" by simp
  have "computed_mean binary64 [a, a, a] = mu"
    unfolding computed_mean_def foldl_Cons foldl_Nil len s1 s2 s3 s4 ..
  then show ?thesis by (simp only: a_def mu_def)
qed

lemma std_constant_column:
  "computed_std binary64
     [3602879701896397 / 2 ^ 55, 3602879701896397 / 2 ^ 55, 3602879701896397 / 2 ^ 55]
   = 1 / 2 ^ 56"
proof -
  define a :: real where "a = 3602879701896397 / 2 ^ 55"
  define mu :: real where "mu = 7205759403792795 / 2 ^ 56"
  define d :: real where "d = - (1 / 2 ^ 56)"
  define q :: real where "q = 1 / 2 ^ 112"
  define q2 :: real where "q2 = 1 / 2 ^ 111"
  define q3 :: real where "q3 = 3 / 2 ^ 112"
  define s :: real where "s = 1 / 2 ^ 56"
  have mean: "computed_mean binary64 [a, a, a] = mu"
    unfolding a_def mu_def by (rule mean_constant_column)
  have t1: "binary64 (a - mu) = d"
    by (subst binary64_eval [where j = "- 56"])
      (simp_all add: a_def mu_def d_def pow2_def round_ties_even_def Let_def)
  have t2: "binary64 (d ^ 2) = q"
    by (subst binary64_eval [where j = "- 112"])
      (simp_all add: d_def q_def pow2_def round_ties_even_def Let_def power_divide)
  have t3: "binary64 (0 + q) = q"
    by (subst binary64_eval [where j = "- 112"])
      (simp_all add: q_def pow2_def round_ties_even_def Let_def)
  have t4: "binary64 (q + q) = q2"
    by (subst binary64_eval [where j = "- 111"])
      (simp_all add: q_def q2_def pow2_def round_ties_even_def Let_def)
  have t5: "binary64 (q2 + q) = q3"
    by (subst binary64_eval [where j = "- 111"])
      (simp_all add: q_def q2_def q3_def pow2_def round_ties_even_def Let_def)
  have t6: "binary64 (q3 / 3) = q"
    by (subst binary64_eval [where j = "- 112"])
      (simp_all add: q_def q3_def pow2_def round_ties_even_def Let_def)
  have "sqrt (s ^ 2) = s" by (simp add: s_def)
  moreover have "s ^ 2 = q" by (simp add: s_def q_def power_divide)
  ultimately have root: "sqrt q = s" by simp
  have t7: "binary64 s = s"
    by (subst binary64_eval [where j = "- 56"])
      (simp_all add: s_def pow2_def round_ties_even_def Let_def)
  have len: "of_nat (length [a, a, a]) = (3::real)" by simp
  have "computed_std binary64 [a, a, a] = s"
    unfolding computed_std_def Let_def mean foldl_Cons foldl_Nil len t1 t2 t3 t4 t5 t6 root t7 ..
  then show ?thesis by (simp only: a_def s_def)
qed


lemma mean_exact_column:
  "computed_mean binary64 [186, 186, 186] = 186"
proof -
  have s1: "binary64 (0 + 186) = 186"
    by (subst binary64_eval [where j = 7]) (simp_all add: pow2_def round_ties_even_def Let_def)
  have s2: "binary64 (186 + 186) = 372"
    by (subst binary64_eval [where j = 8]) (simp_all add: pow2_def round_ties_even_def Let_def)
  have s3: "binary64 (372 + 186) = 558"
    by (subst binary64_eval [where j = 9]) (simp_all add: pow2_def round_ties_even_def Let_def)
  have s4: "binary64 (558 / 3) = 186"
    by (subst binary64_eval [where j = 7]) (simp_all add: pow2_def round_ties_even_def Let_def)
  have len: "of_nat (length [186, 186, 186 :: real]) = (3::real)" by simp
  show ?thesis
    unfolding computed_mean_def foldl_Cons foldl_Nil len s1 s2 s3 s4 ..
qed

lemma std_exact_column:
  "computed_std binary64 [186, 186, 186] = 0"
proof -
  have t1: "binary64 (186 - 186) = 0" by (simp add: binary64_zero)
  have t2: "binary64 (0 ^ 2) = 0" by (simp add: binary64_zero)
  have t3: "binary64 (0 + 0) = 0" by (simp add: binary64_zero)
  have t4: "binary64 (0 / of_nat (length [186, 186, 186 :: real])) = 0"
    by (simp add: binary64_zero)
  have t5: "binary64 (sqrt 0) = 0" by (simp add: binary64_zero)
  show ?thesis
    unfolding computed_std_def Let_def mean_exact_column foldl_Cons foldl_Nil t1 t2 t3 t4 t5 ..
qed

lemma trainEnsemble_scaler:
  assumes "trainingData \<noteq> []" and "name \<in> set featureNames"
  shows "\<exists>m'. trainEnsemble fl m rnd k trainingData = Inr (m', k + 12)
     \<and> encoders m' = encoders m
     \<and> mean (scaler m') name
         = Some (computed_mean fl (map (\<lambda>d. feature_at (engineerFeatures m d) name) trainingData))
     \<and> std (scaler m') name
         = Some (let sd = computed_std fl
                            (map (\<lambda>d. feature_at (engineerFeatures m d) name) trainingData)
                 in if sd = 0 then 1 else sd)"
proof -
  from assms(1) obtain d ds where data: "trainingData = d # ds"
    by (cases trainingData) auto
  from trainEnsemble_Cons [of fl m rnd k d ds] obtain m' where
    tr: "trainEnsemble fl m rnd k trainingData = Inr (m', k + 12)"
    and enc: "encoders m' = encoders m"
    and sc: "scaler m' = fitScaler fl (map (engineerFeatures m) trainingData) featureNames (scaler m)"
    unfolding data by blast
  have vals: "map (\<lambda>f. feature_at f name) (map (engineerFeatures m) trainingData)
              = map (\<lambda>d. feature_at (engineerFeatures m d) name) trainingData"
    by (simp add: comp_def)
  from fitScaler_at [OF assms(2), of fl "map (engineerFeatures m) trainingData" "scaler m"]
  show ?thesis
    unfolding sc [symmetric] vals using tr enc by (simp add: fit_mean fit_std Let_def)
qed

text \<open>
  C8, the claim as stated fails: take three training examples with the same credit
  history, the double nearest to \<open>0.1\<close>. The population deviation of that column is
  exactly zero. In doubles the sum of the three values is rounded up, the computed mean
  is \<open>2^-56\<close> above the value and the computed deviation is \<open>2^-56\<close>: it is not zero,
  so it is stored, 1 is not substituted, and the constant value normalizes to \<open>-1\<close>.
\<close>

theorem constant_column_keeps_deviation:
  "population_std
     (map (\<lambda>d. feature_at (engineerFeatures LoanEligibilityModel_new d) ''credit_history'')
        [sampleC, sampleC, sampleC]) = 0
   \<and> (case trainEnsemble binary64 LoanEligibilityModel_new (\<lambda>i. 1 / 2) 0
              [sampleC, sampleC, sampleC] of
         Inl e \<Rightarrow> False
       | Inr (m', k') \<Rightarrow>
           mean (scaler m') ''credit_history'' = Some (7205759403792795 / 2 ^ 56)
           \<and> std (scaler m') ''credit_history'' = Some (1 / 2 ^ 56)
           \<and> std (scaler m') ''credit_history'' \<noteq> Some 1
           \<and> normalize m' (engineerFeatures m' sampleC) [''credit_history'']
               = [(''credit_history'', - 1)])"
proof -
  let ?m = LoanEligibilityModel_new
  let ?a = "3602879701896397 / 2 ^ 55 :: real"
  have col: "map (\<lambda>d. feature_at (engineerFeatures ?m d) ''credit_history'')
               [sampleC, sampleC, sampleC] = [?a, ?a, ?a]"
    by (simp add: feature_at_def engineerFeatures_def sampleC_def)
  have "population_mean [?a, ?a, ?a] = ?a" by (simp add: population_mean_def)
  then have zero: "population_std [?a, ?a, ?a] = 0" by (simp add: population_std_def)
  have name: "''credit_history'' \<in> set featureNames" by (simp add: featureNames_def)
  from trainEnsemble_scaler [OF _ name, of "[sampleC, sampleC, sampleC]" binary64 ?m "\<lambda>i. 1 / 2" 0]
  obtain m' where
    tr: "trainEnsemble binary64 ?m (\<lambda>i. 1 / 2) 0 [sampleC, sampleC, sampleC] = Inr (m', 0 + 12)"
    and enc: "encoders m' = encoders ?m"
    and mu: "mean (scaler m') ''credit_history'' = Some (7205759403792795 / 2 ^ 56)"
    and sd: "std (scaler m') ''credit_history'' = Some (1 / 2 ^ 56)"
    unfolding col mean_constant_column std_constant_column by (auto simp: Let_def)
  have f: "feature_at (engineerFeatures m' sampleC) ''credit_history'' = ?a"
    by (simp add: feature_at_def engineerFeatures_def sampleC_def)
  have norm: "normalize m' (engineerFeatures m' sampleC) [''credit_history'']
               = [(''credit_history'', - 1)]"
    by (simp add: normalize_def mu sd js_or_def f)
  show ?thesis
    unfolding col zero tr using mu sd norm by simp
qed

text \<open>
  C8, amended. On a training set that is not empty, and whatever the rounding \<open>fl\<close> of
  the arithmetic, \<open>trainEnsemble\<close> stores for every feature name the mean and the
  deviation that lines 233 to 235 compute over the training vectors by the population
  formulas (in exact arithmetic they are the population mean and the population standard
  deviation), with 1 in place of a computed deviation of exactly zero. The stored
  deviation is not zero, the divisor of the normalization is never zero, and normalizing
  a vector at that name gives \<open>(value - mean) / std\<close>.
\<close>

theorem scaler_fit:
  assumes "trainingData \<noteq> []" and "name \<in> set featureNames"
  shows
    "(case trainEnsemble fl m rnd k trainingData of
        Inl e \<Rightarrow> False
      | Inr (m', k') \<Rightarrow>
          (let vals = map (\<lambda>d. feature_at (engineerFeatures m d) name) trainingData;
               mu = computed_mean fl vals;
               sd = (if computed_std fl vals = 0 then 1 else computed_std fl vals)
           in mean (scaler m') name = Some mu
              \<and> std (scaler m') name = Some sd
              \<and> sd \<noteq> 0
              \<and> js_or (std (scaler m') name) 1 \<noteq> 0
              \<and> normalize m' f [name] = [(name, (feature_at f name - mu) / sd)]
              \<and> computed_mean (\<lambda>x. x) vals = population_mean vals
              \<and> computed_std (\<lambda>x. x) vals = population_std vals))"
proof -
  let ?vals = "map (\<lambda>d. feature_at (engineerFeatures m d) name) trainingData"
  let ?mu = "computed_mean fl ?vals"
  let ?sd = "if computed_std fl ?vals = 0 then 1 else computed_std fl ?vals"
  from trainEnsemble_scaler [OF assms, of fl m rnd k] obtain m' where
    tr: "trainEnsemble fl m rnd k trainingData = Inr (m', k + 12)"
    and mu: "mean (scaler m') name = Some ?mu"
    and sd: "std (scaler m') name = Some ?sd"
    by (auto simp: Let_def)
  have nz: "?sd \<noteq> 0" by simp
  have nz': "js_or (std (scaler m') name) 1 \<noteq> 0"
    by (rule js_or_one_nonzero)
  have "js_or (std (scaler m') name) 1 = ?sd"
    unfolding sd by (simp add: js_or_def)
  then have norm: "normalize m' f [name] = [(name, (feature_at f name - ?mu) / ?sd)]"
    by (simp add: normalize_def mu js_or_Some_zero)
  show ?thesis
    unfolding tr Let_def
    using mu sd nz nz' norm computed_mean_exact [of ?vals] computed_std_exact [of ?vals]
    by simp
qed

text \<open>
  In exact arithmetic, two training examples that differ in income only: the income
  gets the mean 1200000 and the deviation 100000, the loan term the mean 186 and, its
  deviation being zero, the value 1. In doubles, three equal examples with the loan
  term 186: the sums are exact, the computed deviation is zero, 1 is stored and the
  value normalizes to 0.
\<close>

theorem scaler_fit_witness:
  "[sampleD, sampleE] \<noteq> [] \<and> [sampleC, sampleC, sampleC] \<noteq> []
   \<and> ''income'' \<in> set featureNames \<and> ''loan_term'' \<in> set featureNames
   \<and> (case trainEnsemble (\<lambda>x. x) LoanEligibilityModel_new (\<lambda>i. 1 / 2) 0 [sampleD, sampleE] of
         Inl e \<Rightarrow> False
       | Inr (m', k') \<Rightarrow>
           mean (scaler m') ''income'' = Some 1200000
           \<and> std (scaler m') ''income'' = Some 100000
           \<and> mean (scaler m') ''loan_term'' = Some 186
           \<and> std (scaler m') ''loan_term'' = Some 1)
   \<and> (case trainEnsemble binary64 LoanEligibilityModel_new (\<lambda>i. 1 / 2) 0
              [sampleC, sampleC, sampleC] of
         Inl e \<Rightarrow> False
       | Inr (m', k') \<Rightarrow>
           mean (scaler m') ''loan_term'' = Some 186
           \<and> std (scaler m') ''loan_term'' = Some 1
           \<and> normalize m' (engineerFeatures m' sampleC) [''loan_term''] = [(''loan_term'', 0)])"
proof -
  let ?data = "[sampleD, sampleE]"
  let ?m = LoanEligibilityModel_new
  have ne: "?data \<noteq> []" "[sampleC, sampleC, sampleC] \<noteq> []" by simp_all
  have names: "''income'' \<in> set featureNames" "''loan_term'' \<in> set featureNames"
    by (simp_all add: featureNames_def)
  have income: "map (\<lambda>d. feature_at (engineerFeatures ?m d) ''income'') ?data
                  = [1100000, 1300000]"
    and lterm: "map (\<lambda>d. feature_at (engineerFeatures ?m d) ''loan_term'') ?data
                  = [186, 186]"
    and ltermC: "map (\<lambda>d. feature_at (engineerFeatures ?m d) ''loan_term'')
                   [sampleC, sampleC, sampleC] = [186, 186, 186]"
    by (simp_all add: feature_at_def engineerFeatures_def sampleD_def sampleE_def sampleC_def)
  have fC: "feature_at (engineerFeatures m' sampleC) ''loan_term'' = 186" for m'
    by (simp add: feature_at_def engineerFeatures_def sampleC_def)
  have mu: "population_mean [1100000, 1300000] = 1200000" "population_mean [186, 186] = 186"
    by (simp_all add: population_mean_def)
  have "sqrt (100000 ^ 2) = 100000" by simp
  then have sd: "population_std [1100000, 1300000] = 100000" "population_std [186, 186] = 0"
    by (simp_all add: population_std_def mu)
  note exact = computed_mean_exact computed_std_exact
  from scaler_fit [where fl = "\<lambda>x. x" and m = ?m and rnd = "\<lambda>i. 1 / 2" and k = 0 and f = "[]",
      OF ne(1) names(1)]
    scaler_fit [where fl = "\<lambda>x. x" and m = ?m and rnd = "\<lambda>i. 1 / 2" and k = 0 and f = "[]",
      OF ne(1) names(2)]
  have one: "(case trainEnsemble (\<lambda>x. x) ?m (\<lambda>i. 1 / 2) 0 ?data of
         Inl e \<Rightarrow> False
       | Inr (m', k') \<Rightarrow>
           mean (scaler m') ''income'' = Some 1200000
           \<and> std (scaler m') ''income'' = Some 100000
           \<and> mean (scaler m') ''loan_term'' = Some 186
           \<and> std (scaler m') ''loan_term'' = Some 1)"
    unfolding Let_def income lterm exact mu sd
    by (simp split: sum.splits prod.splits)
  from scaler_fit [where fl = binary64 and m = ?m and rnd = "\<lambda>i. 1 / 2" and k = 0
      and f = "engineerFeatures ?m sampleC", OF ne(2) names(2)]
  have two: "(case trainEnsemble binary64 ?m (\<lambda>i. 1 / 2) 0 [sampleC, sampleC, sampleC] of
         Inl e \<Rightarrow> False
       | Inr (m', k') \<Rightarrow>
           mean (scaler m') ''loan_term'' = Some 186
           \<and> std (scaler m') ''loan_term'' = Some 1
           \<and> normalize m' (engineerFeatures ?m sampleC) [''loan_term''] = [(''loan_term'', 0)])"
    unfolding Let_def ltermC mean_exact_column std_exact_column
    by (simp add: fC split: sum.splits prod.splits)
  have same: "engineerFeatures m' sampleC = engineerFeatures ?m sampleC"
    if "encoders m' = encoders ?m" for m'
    using that by (simp add: engineerFeatures_def encode_def)
  from trainEnsemble_Cons [of binary64 ?m "\<lambda>i. 1 / 2" 0 sampleC "[sampleC, sampleC]"]
  obtain m' where tr: "trainEnsemble binary64 ?m (\<lambda>i. 1 / 2) 0 [sampleC, sampleC, sampleC]
                        = Inr (m', 0 + 12)"
    and enc: "encoders m' = encoders ?m" by blast
  from two have two': "(case trainEnsemble binary64 ?m (\<lambda>i. 1 / 2) 0 [sampleC, sampleC, sampleC] of
         Inl e \<Rightarrow> False
       | Inr (m', k') \<Rightarrow>
           mean (scaler m') ''loan_term'' = Some 186
           \<and> std (scaler m') ''loan_term'' = Some 1
           \<and> normalize m' (engineerFeatures m' sampleC) [''loan_term''] = [(''loan_term'', 0)])"
    unfolding tr using same [OF enc] by simp
  show ?thesis
    using ne names one two' by simp
qed

subsection \<open>Sorting\<close>

lemma insert_by_map:
  assumes "\<And>a b. cmp' (h a) (h b) = cmp a b"
  shows "insert_by cmp' (h x) (map h ys) = map h (insert_by cmp x ys)"
  by (induction ys) (simp_all add: assms)

lemma js_sort_map:
  assumes "\<And>a b. cmp' (h a) (h b) = cmp a b"
  shows "js_sort cmp' (map h xs) = map h (js_sort cmp xs)"
  unfolding js_sort_def
  by (induction xs) (simp_all add: insert_by_map [of cmp' h cmp, OF assms])

lemma insert_by_insort:
  "insert_by (\<lambda>a b. snd b - snd a) x ys = insort_key (\<lambda>a. - snd a) x ys"
  for x :: "'k \<times> real"
  by (induction ys) simp_all

lemma js_sort_sort_key:
  "js_sort (\<lambda>a b. snd b - snd a) xs = sort_key (\<lambda>a. - snd a) xs"
  for xs :: "('k \<times> real) list"
  unfolding js_sort_def sort_key_def
  by (induction xs) (simp_all add: insert_by_insort)

lemma js_sort_descending:
  "js_sort descending (map (\<lambda>(k, x). (k, Num x)) xs)
     = map (\<lambda>(k, x). (k, Num x)) (sort_key (\<lambda>a. - snd a) xs)"
proof -
  have "js_sort descending (map (\<lambda>(k, x). (k, Num x)) xs)
          = map (\<lambda>(k, x). (k, Num x)) (js_sort (\<lambda>a b. snd b - snd a) xs)"
    by (rule js_sort_map) (simp add: split_def)
  then show ?thesis by (simp add: js_sort_sort_key)
qed

lemma sorted_descending:
  "sorted_wrt (\<lambda>a b. snd a \<ge> snd b) (sort_key (\<lambda>a. - snd a) xs)"
  for xs :: "('k \<times> real) list"
proof -
  have "sorted (map (\<lambda>a. - snd a) (sort_key (\<lambda>a. - snd a) xs))"
    by (rule sorted_sort_key)
  then show ?thesis
    by (simp add: sorted_map)
qed

subsection \<open>Contributions and shares\<close>

lemma feature_at_map:
  "name \<in> set names \<Longrightarrow> feature_at (map (\<lambda>n. (n, g n)) names) name = g name"
  by (simp add: feature_at_def map_of_map_restrict)

lemma contributions_eq:
  "contributions m (normalize m (engineerFeatures m d) featureNames) featureNames
     = map (\<lambda>name. (name, contribution m d name)) featureNames"
  unfolding contributions_def
  by (rule map_cong) (simp_all add: normalize_def feature_at_map contribution_def)

lemma totalContribution_eq:
  "totalContribution (map (\<lambda>name. (name, c name)) names) = sum_list (map c names)"
proof -
  have "foldl (\<lambda>acc (name, contrib). acc + contrib) a (map (\<lambda>name. (name, c name)) names)
          = a + sum_list (map c names)" for a
    by (induction names arbitrary: a) simp_all
  then show ?thesis by (simp add: totalContribution_def)
qed

lemma contribution_nonneg: "0 \<le> contribution m d name"
  by (simp add: contribution_def)

lemma total_contribution_nonneg: "0 \<le> total_contribution m d"
  unfolding total_contribution_def
  by (rule sum_list_nonneg) (auto simp add: contribution_nonneg)

lemma contribution_le_total:
  "name \<in> set featureNames \<Longrightarrow> contribution m d name \<le> total_contribution m d"
  unfolding total_contribution_def
  by (rule member_le_sum_list) (auto simp add: contribution_nonneg)

lemma share_bounds:
  assumes "total_contribution m d \<noteq> 0" and "name \<in> set featureNames"
  shows "0 \<le> share m d name \<and> share m d name \<le> 100"
proof -
  have pos: "0 < total_contribution m d"
    using assms(1) total_contribution_nonneg [of m d] by simp
  have "contribution m d name / total_contribution m d \<le> 1"
    using contribution_le_total [OF assms(2), of m d] pos by simp
  then have "contribution m d name / total_contribution m d * 100 \<le> 1 * 100"
    by (rule mult_right_mono) simp
  moreover have "0 \<le> contribution m d name / total_contribution m d * 100"
    using contribution_nonneg [of m d name] pos by simp
  ultimately show ?thesis by (simp add: share_def)
qed

subsection \<open>Rounding to two decimals\<close>

lemma round2_Num: "round2 (Num x) = Num (round2_real x)"
  by (simp add: round2_real_def)

lemma round2_real_mono: "x \<le> y \<Longrightarrow> round2_real x \<le> round2_real y"
  unfolding round2_real_def
  by (simp add: js_round_mono divide_right_mono)

lemma round2_real_bounds:
  assumes "0 \<le> x" and "x \<le> 100"
  shows "0 \<le> round2_real x \<and> round2_real x \<le> 100"
proof -
  have "of_int 0 \<le> x * 100" "x * 100 \<le> of_int 10000"
    using assms by simp_all
  from js_round_between [OF this] show ?thesis
    by (simp add: round2_real_def)
qed

lemma round2_real_two_decimals: "of_int \<lfloor>round2_real x * 100\<rfloor> = round2_real x * 100"
  by (simp add: round2_real_def)

subsection \<open>The attributions of a prediction\<close>

lemma predict_attributions:
  "feature_attributions (predict m d) =
     sortedAttributions (contributions m (normalize m (engineerFeatures m d) featureNames)
        featureNames)"
  by (simp add: predict_def Let_def keys_engineerFeatures)

lemma attributions_shares:
  assumes "total_contribution m d \<noteq> 0"
  shows "feature_attributions (predict m d) =
     map (\<lambda>(key, val). (key, round2 val))
       (take 5 (js_sort descending
          (map (\<lambda>name. (name, Num (share m d name))) featureNames)))"
proof -
  have tot: "totalContribution (map (\<lambda>name. (name, contribution m d name)) featureNames)
               = total_contribution m d"
    by (simp add: totalContribution_eq total_contribution_def)
  show ?thesis
    unfolding predict_attributions contributions_eq sortedAttributions_def tot
    using assms by (simp add: percentage_def share_def comp_def)
qed

lemma attributions_sorted_shares:
  assumes "total_contribution m d \<noteq> 0"
  shows "feature_attributions (predict m d) =
     map (\<lambda>(key, x). (key, Num (round2_real x)))
       (take 5 (sort_key (\<lambda>a. - snd a) (map (\<lambda>name. (name, share m d name)) featureNames)))"
proof -
  let ?shares = "map (\<lambda>name. (name, share m d name)) featureNames"
  have "map (\<lambda>name. (name, Num (share m d name))) featureNames
          = map (\<lambda>(k, x). (k, Num x)) ?shares"
    by simp
  then have "js_sort descending (map (\<lambda>name. (name, Num (share m d name))) featureNames)
          = map (\<lambda>(k, x). (k, Num x)) (sort_key (\<lambda>a. - snd a) ?shares)"
    by (simp only: js_sort_descending)
  then show ?thesis
    unfolding attributions_shares [OF assms]
    by (simp add: take_map comp_def split_def round2_real_def)
qed

subsection \<open>Attributions without a total\<close>

lemma rndP_range: "0 \<le> rndP i \<and> rndP i < 1"
proof -
  have "i mod 8 < 8" by simp
  then have "i mod 8 \<in> {0, 1, 2, 3, 4, 5, 6, 7}" by auto
  then show ?thesis
    unfolding rndP_def by (auto simp: nth_Cons')
qed

lemma rndP_shift: "k mod 8 = 0 \<Longrightarrow> rndP (k + i) = rndP i"
  by (simp add: rndP_def mod_add_left_eq [symmetric])

lemma rndP_values:
  "rndP 0 = 3 / 16" "rndP 1 = 1 / 2" "rndP 2 = 13 / 32" "rndP 3 = 0" "rndP 4 = 1 / 2"
  "rndP 5 = 1 / 4" "rndP 6 = 0" "rndP 7 = 1 / 2"
  by (simp_all add: rndP_def)

lemma generateSample_P:
  assumes "rnd k = 3 / 16" and "rnd (k + 1) = 1 / 2" and "rnd (k + 2) = 13 / 32"
    and "rnd (k + 3) = 0" and "rnd (k + 4) = 1 / 2" and "rnd (k + 5) = 1 / 4"
    and "rnd (k + 6) = 0" and "rnd (k + 7) = 1 / 2"
  shows "generateSample LoanEligibilityModel_new rnd k = sampleP"
  unfolding generateSample_def Let_def assms
  by (simp add: sampleP_def array_at_def encode_def js_or_def
      LoanEligibilityModel_new_def initializeEncoders_def)

lemma constant_sample:
  assumes "k mod 8 = 0"
  shows "generateSample LoanEligibilityModel_new rndP k = sampleP"
proof (rule generateSample_P)
  show "rndP k = 3 / 16"
    using rndP_shift [OF assms, of 0] by (simp add: rndP_values)
  show "rndP (k + 1) = 1 / 2" "rndP (k + 2) = 13 / 32" "rndP (k + 3) = 0"
    "rndP (k + 4) = 1 / 2" "rndP (k + 5) = 1 / 4" "rndP (k + 6) = 0" "rndP (k + 7) = 1 / 2"
    by (simp_all only: rndP_shift [OF assms] rndP_values)
qed

lemma constant_data:
  "k mod 8 = 0 \<Longrightarrow>
     generateSyntheticData LoanEligibilityModel_new rndP k n = replicate n sampleP"
proof (induction n arbitrary: k)
  case 0
  then show ?case by simp
next
  case (Suc n)
  from Suc.prems have "(k + 8) mod 8 = 0" by simp
  from Suc.IH [OF this] show ?case
    by (simp add: constant_sample [OF Suc.prems])
qed

lemma fit_replicate:
  assumes "0 < n"
  shows "fit (\<lambda>x. x) (replicate n v) = (v, 1)"
proof -
  have mu: "population_mean (replicate n v) = v"
    using assms by (simp add: population_mean_def sum_list_replicate)
  have "map (\<lambda>x. (x - v) ^ 2) (replicate n v) = replicate n 0"
    by simp
  then have "population_std (replicate n v) = 0"
    by (simp add: population_std_def mu sum_list_replicate)
  with mu show ?thesis
    using fit_mean [of "\<lambda>x. x" "replicate n v"] fit_std [of "\<lambda>x. x" "replicate n v"]
    by (simp add: prod_eq_iff computed_mean_exact computed_std_exact)
qed

lemma engineerFeatures_encoders:
  "encoders m' = encoders m \<Longrightarrow> engineerFeatures m' d = engineerFeatures m d"
  by (simp add: engineerFeatures_def encode_def)

lemma features_P:
  "engineerFeatures LoanEligibilityModel_new applicantP
     = engineerFeatures LoanEligibilityModel_new sampleP"
  by (simp add: engineerFeatures_def applicantP_def sampleP_def)

lemma total_contribution_zero:
  assumes "total_contribution m d = 0" and "name \<in> set featureNames"
  shows "contribution m d name = 0"
  using contribution_le_total [OF assms(2), of m d] contribution_nonneg [of m d name] assms(1)
  by simp

lemma zero_contributions:
  assumes enc: "encoders m' = encoders LoanEligibilityModel_new"
    and sc: "scaler m' =
       fitScaler (\<lambda>x. x)
         (map (engineerFeatures LoanEligibilityModel_new) (replicate 4000 sampleP))
         featureNames (scaler LoanEligibilityModel_new)"
  shows "total_contribution m' applicantP = 0"
proof -
  let ?f = "engineerFeatures LoanEligibilityModel_new sampleP"
  have f: "engineerFeatures m' applicantP = ?f"
    by (simp add: engineerFeatures_encoders [OF enc] features_P)
  have par: "mean (scaler m') name = Some (feature_at ?f name) \<and> std (scaler m') name = Some 1"
    if "name \<in> set featureNames" for name
    using fitScaler_at [OF that, of "\<lambda>x. x"
        "map (engineerFeatures LoanEligibilityModel_new) (replicate 4000 sampleP)"
        "scaler LoanEligibilityModel_new"]
    by (simp add: sc fit_replicate)
  have "contribution m' applicantP name = 0" if "name \<in> set featureNames" for name
    using par [OF that] by (simp add: contribution_def f js_or_def)
  then have "map (contribution m' applicantP) featureNames = map (\<lambda>name. 0) featureNames"
    by (intro map_cong) simp_all
  then have "sum_list (map (contribution m' applicantP) featureNames)
               = sum_list (map (\<lambda>name. 0) featureNames)"
    by (simp only:)
  then show ?thesis
    by (simp add: total_contribution_def)
qed

text \<open>
  C5. The division by \<open>totalContribution\<close> at line 378 has no guard, where the
  divisions of lines 235 and 302 to 304 have one. For every model and applicant whose
  contributions are all zero, so that their total is zero, \<open>predict\<close> returns five
  attributions, those of the first five feature names, and each is \<open>NaN\<close>: they are
  not percentages between 0 and 100.
\<close>

theorem attributions_zero_total:
  assumes "total_contribution m d = 0"
  shows "feature_attributions (predict m d)
           = [(''income'', NaN), (''credit_history'', NaN), (''loan_amount'', NaN),
              (''loan_term'', NaN), (''dependents'', NaN)]
         \<and> \<not> list_all (\<lambda>(key, val). in_percent_range val) (feature_attributions (predict m d))"
proof -
  have "map (\<lambda>name. (name, contribution m d name)) featureNames
          = map (\<lambda>name. (name, 0)) featureNames"
    by (intro map_cong) (simp_all add: total_contribution_zero [OF assms])
  then have "feature_attributions (predict m d)
               = sortedAttributions (map (\<lambda>name. (name, 0)) featureNames)"
    by (simp only: predict_attributions contributions_eq)
  also have "\<dots> = [(''income'', NaN), (''credit_history'', NaN), (''loan_amount'', NaN),
                   (''loan_term'', NaN), (''dependents'', NaN)]"
    by (simp add: sortedAttributions_def featureNames_def totalContribution_def
        percentage_def js_sort_def)
  finally show ?thesis by simp
qed

text \<open>
  A trained model and an applicant of that kind. When \<open>Math.random()\<close> repeats the
  eight draws \<open>3/16, 1/2, 13/32, 0, 1/2, 1/4, 0, 1/2\<close>, the 5000 generated samples are
  equal; \<open>train\<close> returns a model with every weight and scaling parameter set, whose
  means are the features of that sample and whose deviations, all zero, are replaced by
  1. For the applicant with the sample's fields, which passes every check of the
  \<open>applicants\<close> table, every normalized feature is zero, the total is zero and the
  five attributions are \<open>NaN\<close>.
\<close>

theorem attributions_zero_total_witness:
  "applicants_check applicantP
   \<and> (case train LoanEligibilityModel_new rndP 0 of
         Inl e \<Rightarrow> False
       | Inr (r, m', k') \<Rightarrow>
           fitted m'
           \<and> total_contribution m' applicantP = 0
           \<and> feature_attributions (predict m' applicantP) =
               [(''income'', NaN), (''credit_history'', NaN), (''loan_amount'', NaN),
                (''loan_term'', NaN), (''dependents'', NaN)])"
proof -
  let ?m = LoanEligibilityModel_new
  from train_result [of ?m rndP 0] obtain m1 m' where
    tr: "train ?m rndP 0 = Inr (metrics m', m', 0 + 40012)"
    and m': "m' = m1\<lparr>metrics := metrics m'\<rparr>"
    and enc: "encoders m1 = encoders ?m"
    and sc: "scaler m1 =
         fitScaler (\<lambda>x. x)
           (map (engineerFeatures ?m) (take 4000 (generateSyntheticData ?m rndP 0 5000)))
           featureNames (scaler ?m)"
    and set: "\<forall>name \<in> set featureNames. weights m1 name \<noteq> None
                \<and> mean (scaler m1) name \<noteq> None \<and> std (scaler m1) name \<noteq> None"
    by blast
  have w: "weights m' = weights m1" and s: "scaler m' = scaler m1"
    and e: "encoders m' = encoders m1"
    by (subst m', simp)+
  have fit: "fitted m'"
    using set by (simp add: fitted_def list_all_iff w s)
  have "take 4000 (generateSyntheticData ?m rndP 0 5000) = replicate 4000 sampleP"
    using constant_data [of 0 5000] by simp
  then have "scaler m' =
       fitScaler (\<lambda>x. x) (map (engineerFeatures ?m) (replicate 4000 sampleP)) featureNames
         (scaler ?m)"
    by (simp only: s sc)
  from zero_contributions [OF _ this]
  have zero: "total_contribution m' applicantP = 0"
    by (simp add: e enc)
  have "applicants_check applicantP"
    by (simp add: applicants_check_def applicantP_def)
  then show ?thesis
    unfolding tr using fit zero attributions_zero_total [OF zero] by simp
qed

end
